theory Spec2Isabelle
  imports Complex_Main
begin

section \<open>Python values, exceptions and external tools\<close>

text \<open>
  The program is a Python script that drives ffprobe/ffmpeg, the Reddit HTTP API, an
  object store and the PRAW client. Every external call is modelled by an oracle field
  of a \<open>snapshot\<close> (what the outside world answers at one instant); a \<open>world\<close> maps
  a clock to snapshots, so answers may change between calls. Exceptions are values:
  a function that can raise returns \<open>exn + 'a\<close> with \<open>Inl\<close> for the raise, and
  \<open>exn\<close> stands for the instances of \<open>Exception\<close>, which are what the handlers of
  the source catch. Log calls have no effect on results and are left out.
\<close>

text \<open>
  An exception object. The lease functions inspect \<open>hasattr(e, 'response')\<close> and then
  read \<open>e.response.text\<close>, so the model keeps the class name and the state of that
  attribute: missing, \<open>None\<close>, or a response with the given text.
\<close>

datatype response_attr = NoAttr | AttrNone | AttrResponse string

datatype exn = PyExn (exn_class: string) (exn_response: response_attr)

definition plain_exception :: exn where
  "plain_exception = PyExn ''Exception'' NoAttr"

definition attribute_error :: exn where
  "attribute_error = PyExn ''AttributeError'' NoAttr"

definition type_error :: exn where
  "type_error = PyExn ''TypeError'' NoAttr"

definition key_error :: exn where
  "key_error = PyExn ''KeyError'' NoAttr"

definition zero_division_error :: exn where
  "zero_division_error = PyExn ''ZeroDivisionError'' NoAttr"

definition value_error :: exn where
  "value_error = PyExn ''ValueError'' NoAttr"

definition overflow_error :: exn where
  "overflow_error = PyExn ''OverflowError'' NoAttr"

definition recursion_error :: exn where
  "recursion_error = PyExn ''RecursionError'' NoAttr"

type_synonym bytes = string

text \<open>A file argument: a path on disk, or an in-memory \<open>io.BytesIO\<close> buffer.\<close>

datatype filearg = FilePath string | Buffer bytes

text \<open>
  A file that ffprobe is pointed at by its path: a file on disk under the given path, or
  the temporary file into which the given bytes were written.
\<close>

datatype media_file = OnDisk string | TempCopy bytes

section \<open>Floats\<close>

text \<open>
  A Python float: a finite value (given as the real number it denotes), an infinity,
  or NaN. \<open>float()\<close> yields all of them (\<open>float('nan')\<close>, \<open>float('inf')\<close>). The
  comparisons with a number follow IEEE 754: every comparison with NaN is false.
\<close>

datatype pyfloat = Finite real | PosInf | NegInf | NaN

fun float_lt :: "pyfloat \<Rightarrow> real \<Rightarrow> bool" where
  "float_lt (Finite x) c = (x < c)"
| "float_lt NegInf c = True"
| "float_lt PosInf c = False"
| "float_lt NaN c = False"

fun float_le :: "pyfloat \<Rightarrow> real \<Rightarrow> bool" where
  "float_le (Finite x) c = (x \<le> c)"
| "float_le NegInf c = True"
| "float_le PosInf c = False"
| "float_le NaN c = False"

fun float_gt :: "pyfloat \<Rightarrow> real \<Rightarrow> bool" where
  "float_gt (Finite x) c = (c < x)"
| "float_gt PosInf c = True"
| "float_gt NegInf c = False"
| "float_gt NaN c = False"

text \<open>
  Rounding a real number to the nearest double (binary64, ties to even): \<open>ilog2\<close> is
  the binary exponent, the spacing of the doubles around \<open>x\<close> is
  \<open>2 ^ (max e (-1022) - 52)\<close>, and a result of \<open>2 ^ 1024\<close> or more overflows to an
  infinity.
\<close>

definition pow2 :: "int \<Rightarrow> real" where
  "pow2 k = (if 0 \<le> k then 2 ^ nat k else 1 / 2 ^ nat (- k))"

function ilog2 :: "real \<Rightarrow> int" where
  "ilog2 x =
     (if x \<le> 0 then 0
      else if 2 \<le> x then ilog2 (x / 2) + 1
      else if x < 1 then ilog2 (2 * x) - 1
      else 0)"
  by pat_completeness auto
termination
proof (relation "measure (\<lambda>x. nat \<bar>\<lfloor>log 2 x\<rfloor>\<bar>)")
  show "wf (measure (\<lambda>x. nat \<bar>\<lfloor>log 2 x\<rfloor>\<bar>))" by simp
next
  fix x :: real
  assume a: "\<not> x \<le> 0" "2 \<le> x"
  have l: "log 2 (x / 2) = log 2 x - 1" using a by (simp add: log_divide)
  have "1 \<le> log 2 x" using a by simp
  then have "1 \<le> \<lfloor>log 2 x\<rfloor>" by linarith
  moreover have "\<lfloor>log 2 x - 1\<rfloor> = \<lfloor>log 2 x\<rfloor> - 1" by linarith
  ultimately show "(x / 2, x) \<in> measure (\<lambda>x. nat \<bar>\<lfloor>log 2 x\<rfloor>\<bar>)"
    using l by simp
next
  fix x :: real
  assume a: "\<not> x \<le> 0" "\<not> 2 \<le> x" "x < 1"
  have l: "log 2 (2 * x) = 1 + log 2 x" using a by (simp add: log_mult)
  have "log 2 x < 0" using a by simp
  then have "\<lfloor>log 2 x\<rfloor> \<le> - 1" by linarith
  moreover have "\<lfloor>1 + log 2 x\<rfloor> = \<lfloor>log 2 x\<rfloor> + 1" by linarith
  ultimately show "(2 * x, x) \<in> measure (\<lambda>x. nat \<bar>\<lfloor>log 2 x\<rfloor>\<bar>)"
    using l by simp
qed

declare ilog2.simps [simp del]

definition round_half_even :: "real \<Rightarrow> int" where
  "round_half_even x =
     (let f = \<lfloor>x\<rfloor>; r = x - of_int f
      in if r < 1 / 2 then f
         else if 1 / 2 < r then f + 1
         else if even f then f else f + 1)"

definition round_double :: "real \<Rightarrow> pyfloat" where
  "round_double x =
     (if x = 0 then Finite 0
      else let m = \<bar>x\<bar>;
               e = max (ilog2 m) (- 1022);
               q = pow2 (e - 52);
               r = of_int (round_half_even (m / q)) * q
           in if pow2 1024 \<le> r then (if x < 0 then NegInf else PosInf)
              else Finite (if x < 0 then - r else r))"

text \<open>
  \<open>a / d\<close> for an integer \<open>a\<close> that is a double and a float \<open>d\<close>: division by zero
  raises, a finite quotient is rounded to the nearest double, a division by an
  infinity gives zero, and NaN stays NaN.
\<close>

definition float_div :: "real \<Rightarrow> pyfloat \<Rightarrow> exn + pyfloat" where
  "float_div a d =
     (case d of
        Finite y \<Rightarrow> if y = 0 then Inl zero_division_error else Inr (round_double (a / y))
      | PosInf \<Rightarrow> Inr (Finite 0)
      | NegInf \<Rightarrow> Inr (Finite 0)
      | NaN \<Rightarrow> Inr NaN)"

text \<open>
  \<open>int(x)\<close> on a float truncates towards zero; it raises \<open>OverflowError\<close> on an
  infinity and \<open>ValueError\<close> on NaN.
\<close>

definition py_int :: "pyfloat \<Rightarrow> exn + int" where
  "py_int x =
     (case x of
        Finite r \<Rightarrow> Inr (if 0 \<le> r then \<lfloor>r\<rfloor> else \<lceil>r\<rceil>)
      | PosInf \<Rightarrow> Inl overflow_error
      | NegInf \<Rightarrow> Inl overflow_error
      | NaN \<Rightarrow> Inl value_error)"

section \<open>Probe results\<close>

text \<open>
  \<open>ProbeInfo\<close>: what the code reads from ffprobe's JSON output: \<open>format.duration\<close>
  through \<open>float()\<close>, \<open>format.size\<close> through \<open>int()\<close>, and \<open>codec_type\<close> of each
  stream. The duration is the float that \<open>float()\<close> returned.
\<close>

record stream =
  codec_type :: string
  codec_name :: string

record probe_info =
  duration :: pyfloat
  file_size :: int
  streams :: "stream list"

text \<open>
  One run of ffprobe through \<open>subprocess.run\<close>: the call itself raises
  (\<open>SpawnFailed\<close>), or the process exits with a return code and a standard output;
  the output is \<open>None\<close> when \<open>json.loads\<close>, a key lookup, \<open>float()\<close> or \<open>int()\<close>
  would raise on it.
\<close>

datatype probe_run = SpawnFailed | Exited int "probe_info option"

text \<open>A child process started with \<open>subprocess.Popen\<close>: return code and standard output.\<close>

datatype proc = SpawnError exn | Done int bytes


section \<open>The outside world\<close>

text \<open>
  An HTTP response as \<open>requests\<close> gives it: the status code, the body text, and
  what parsing the body yields (\<open>response.json()\<close> or \<open>ET.fromstring\<close>), which may
  raise.
\<close>

record 'a response =
  status_code :: nat
  resp_text :: string
  body :: "exn + 'a"

text \<open>
  The JSON object of a lease endpoint: the keys \<open>action\<close> and \<open>fields\<close> may each be
  absent. A JSON value that is no object has neither key.
\<close>

record lease =
  lease_action :: "string option"
  lease_fields :: "(string \<times> string) list option"

text \<open>An XML element; \<open>.text\<close> is \<open>None\<close> for an element without content.\<close>

datatype element = Element (elem_text: "string option")

text \<open>The JSON document posted to the submit endpoint.\<close>

record submit_data =
  sr :: string
  kind :: string
  title :: string
  video_url :: "string option"
  video_poster_url :: "string option"
  api_type :: string

text \<open>
  A PRAW submission as the code reads it. \<open>media\<close> is \<open>None\<close> or the key list of the
  media dictionary; \<open>secure_media\<close> is \<open>None\<close>, or carries what
  \<open>.get("reddit_video", {}).get("fallback_url")\<close> yields. A fetch
  \<open>reddit.submission(id=...)\<close> is one call that raises or yields the post with all
  its fields, so that reading a field afterwards does not raise.
\<close>

datatype secure_media = SecureNone | Secure (fallback_url: "string option")

record submission =
  sub_id :: string
  sub_title :: string
  permalink :: string
  sub_url :: string
  media :: "string list option"
  secure_media :: secure_media

record snapshot =
  which_ffprobe :: bool
  which_ffmpeg :: bool
  ffprobe_media :: "media_file \<Rightarrow> probe_run"
  ffprobe_dims :: "string \<Rightarrow> (int \<times> int) option"
  ffprobe_report :: "string \<Rightarrow> bool"
  ffmpeg_file :: "string list \<Rightarrow> bool"
  ffmpeg_pipe :: "bytes \<Rightarrow> string list \<Rightarrow> proc"
  temp_file :: "exn + string"
  read_file :: "string \<Rightarrow> exn + bytes"
  os_getsize :: "string \<Rightarrow> exn + nat"
  token_endpoint :: "exn + (string option) response"
  video_lease_endpoint :: "string \<Rightarrow> string \<Rightarrow> exn + lease response"
  image_lease_endpoint :: "string \<Rightarrow> string \<Rightarrow> exn + lease response"
  s3_endpoint :: "string \<Rightarrow> (string \<times> string) list \<Rightarrow> bytes \<Rightarrow> exn + (element option) response"
  submit_endpoint :: "string \<Rightarrow> submit_data \<Rightarrow> exn + (string option) response"
  praw_submit_video :: "string \<Rightarrow> string \<Rightarrow> bytes option \<Rightarrow> exn option"
  submissions_new :: "exn + submission list"
  reddit_submission :: "string \<Rightarrow> exn + submission"
  submission_delete :: "string \<Rightarrow> exn option"
  requests_head :: "string \<Rightarrow> exn + nat"

text \<open>
  The oracles, in the order of the fields: \<open>shutil.which\<close> for the two tools; the
  ffprobe query for format and streams on a file; the ffprobe query for the first stream's width and height
  (\<open>None\<close> when the run or the parsing raises); whether the last, logged ffprobe report
  parses; whether \<open>subprocess.run(ffmpeg ..., check=True)\<close> completes; ffmpeg started
  with \<open>Popen\<close> on the temporary copy of a buffer; writing a temporary file;
  reading a file; \<open>os.path.getsize\<close>; the five HTTP endpoints; and the PRAW calls
  \<open>subreddit.submit_video\<close>, \<open>reddit.user.me().submissions.new(limit=10)\<close>,
  \<open>reddit.submission(id=...)\<close>, \<open>submission.delete()\<close>, and \<open>requests.head\<close>
  (the status code).
\<close>

type_synonym world = "nat \<Rightarrow> snapshot"

section \<open>MediaValidator\<close>

text \<open>
  \<open>validate_video\<close> (lines 124-162): the strict validator. The argument is the file
  behind the path that the function is given. Its ffprobe query asks
  for the duration and the codec types only; the model reads them from the same probe
  result as the other functions do.
\<close>

definition validate_video :: "snapshot \<Rightarrow> media_file \<Rightarrow> bool" where
  "validate_video sn video_path =
     (if \<not> which_ffprobe sn then True
      else case ffprobe_media sn video_path of
        SpawnFailed \<Rightarrow> False
      | Exited returncode out \<Rightarrow>
          if returncode \<noteq> 0 then False
          else (case out of
            None \<Rightarrow> False
          | Some info \<Rightarrow>
              if float_lt (duration info) 2 then False
              else if \<not> list_ex (\<lambda>s. codec_type s = ''audio'') (streams info) then False
              else True))"

text \<open>
  \<open>is_valid_mp4\<close> (lines 164-203): the basic validator. The probe runs with
  \<open>check=True\<close>, so a non-zero return code raises and ends in the handler.
\<close>

definition is_valid_mp4 :: "snapshot \<Rightarrow> media_file \<Rightarrow> bool" where
  "is_valid_mp4 sn path =
     (if \<not> which_ffprobe sn then True
      else case ffprobe_media sn path of
        SpawnFailed \<Rightarrow> False
      | Exited returncode out \<Rightarrow>
          if returncode \<noteq> 0 then False
          else (case out of
            None \<Rightarrow> False
          | Some info \<Rightarrow>
              if float_le (duration info) 0 \<or> float_gt (duration info) 900 then False
              else if file_size info > 1000000000 then False
              else if \<not> list_ex (\<lambda>s. codec_type s = ''video'') (streams info) then False
              else True))"


section \<open>MediaTranscoder\<close>

text \<open>
  \<open>convert_video\<close> (lines 205-265), the resize policy. It returns the path of the
  file to use: \<open>output_path\<close> after a conversion that passed every step, and
  \<open>input_path\<close> when ffmpeg is missing or any step raised.
\<close>

definition scale_filter :: "int \<Rightarrow> int \<Rightarrow> string" where
  "scale_filter width height =
     (if width > height
      then ''scale=1280:720:force_original_aspect_ratio=decrease,pad=1280:720:(ow-iw)/2:(oh-ih)/2''
      else ''scale=720:1280:force_original_aspect_ratio=decrease,pad=720:1280:(ow-iw)/2:(oh-ih)/2'')"

definition convert_cmd :: "string \<Rightarrow> string \<Rightarrow> string \<Rightarrow> string list" where
  "convert_cmd input_path flt output_path =
     [''ffmpeg'', ''-y'', ''-i'', input_path, ''-vf'', flt,
      ''-c:v'', ''libx264'', ''-profile:v'', ''main'', ''-preset'', ''medium'',
      ''-crf'', ''23'', ''-b:v'', ''5M'', ''-pix_fmt'', ''yuv420p'',
      ''-c:a'', ''aac'', ''-b:a'', ''128k'', ''-ar'', ''44100'', ''-strict'', ''-2'',
      ''-movflags'', ''+faststart'', output_path]"

definition convert_video :: "snapshot \<Rightarrow> string \<Rightarrow> string \<Rightarrow> string" where
  "convert_video sn input_path output_path =
     (if \<not> which_ffmpeg sn then input_path
      else case ffprobe_dims sn input_path of
        None \<Rightarrow> input_path
      | Some (width, height) \<Rightarrow>
          if \<not> ffmpeg_file sn (convert_cmd input_path (scale_filter width height) output_path)
          then input_path
          else if \<not> is_valid_mp4 sn (OnDisk output_path) then input_path
          else if \<not> ffprobe_report sn output_path then input_path
          else output_path)"

text \<open>The decimal text of an integer, as an f-string prints it.\<close>

fun str_nat :: "nat \<Rightarrow> string" where
  "str_nat n =
     (if n < 10 then [''0123456789'' ! n]
      else str_nat (n div 10) @ [''0123456789'' ! (n mod 10)])"

declare str_nat.simps [simp del]

definition str_int :: "int \<Rightarrow> string" where
  "str_int i = (if i < 0 then CHR ''-'' # str_nat (nat (- i)) else str_nat (nat i))"

text \<open>
  \<open>validate_and_convert_video\<close> (lines 582-670), the constraint-trim policy, on an
  in-memory buffer. The result is the buffer to use, or \<open>None\<close>; the second component
  lists the ffmpeg command lines handed to \<open>Popen\<close>. The return code of the probe is
  not looked at; its output is parsed whatever it is.
\<close>

definition target_size :: int where
  "target_size = 700000000"

definition needs_conversion :: "pyfloat \<Rightarrow> int \<Rightarrow> bool" where
  "needs_conversion d sz = (float_gt d 840 \<or> sz > 1000000000)"

definition conversion_params :: "pyfloat \<Rightarrow> int \<Rightarrow> exn + string list" where
  "conversion_params d sz =
     (let params = (if float_gt d 840 then [''-t'', ''840''] else [])
      in if sz > 1000000000
         then (case float_div (of_int (target_size * 8)) d of
                 Inl e \<Rightarrow> Inl e
               | Inr q \<Rightarrow>
                   (case py_int q of
                      Inl e \<Rightarrow> Inl e
                    | Inr target_bitrate \<Rightarrow>
                        Inr (params @ [''-b:v'', str_int target_bitrate])))
         else Inr params)"

definition ffmpeg_cmd :: "string \<Rightarrow> string list \<Rightarrow> string list" where
  "ffmpeg_cmd temp_video_path params =
     [''ffmpeg'', ''-i'', temp_video_path, ''-c:v'', ''libx264'', ''-preset'', ''medium'',
      ''-crf'', ''23'', ''-c:a'', ''aac'', ''-b:a'', ''128k'']
     @ params @ [''-f'', ''mp4'', ''-movflags'', ''+faststart'', ''-'']"

definition validate_and_convert_video :: "snapshot \<Rightarrow> bytes \<Rightarrow> bytes option \<times> string list list" where
  "validate_and_convert_video sn video_data =
     (case temp_file sn of
        Inl e \<Rightarrow> (None, [])
      | Inr temp_video_path \<Rightarrow>
          (case ffprobe_media sn (TempCopy video_data) of
             SpawnFailed \<Rightarrow> (None, [])
           | Exited returncode out \<Rightarrow>
               (case out of
                  None \<Rightarrow> (None, [])
                | Some info \<Rightarrow>
                    (case conversion_params (duration info) (file_size info) of
                       Inl e \<Rightarrow> (None, [])
                     | Inr params \<Rightarrow>
                         if needs_conversion (duration info) (file_size info)
                         then (let cmd = ffmpeg_cmd temp_video_path params
                               in case ffmpeg_pipe sn video_data cmd of
                                    SpawnError e \<Rightarrow> (None, [cmd])
                                  | Done rc converted_bytes \<Rightarrow>
                                      if rc \<noteq> 0 then (None, [cmd])
                                      else (Some converted_bytes, [cmd]))
                         else (Some video_data, [])))))"

section \<open>ThumbnailExtractor\<close>

text \<open>\<open>generate_thumbnail\<close> (lines 531-580): a JPEG frame in memory, or \<open>None\<close>.\<close>

definition thumbnail_cmd :: "string \<Rightarrow> string list" where
  "thumbnail_cmd temp_video_path =
     [''ffmpeg'', ''-i'', temp_video_path, ''-ss'', ''00:00:01'', ''-vframes'', ''1'',
      ''-f'', ''image2pipe'', ''-vcodec'', ''mjpeg'', ''-'']"

definition generate_thumbnail :: "snapshot \<Rightarrow> bytes \<Rightarrow> bytes option" where
  "generate_thumbnail sn video_data =
     (case temp_file sn of
        Inl e \<Rightarrow> None
      | Inr temp_video_path \<Rightarrow>
          (case ffmpeg_pipe sn video_data (thumbnail_cmd temp_video_path) of
             SpawnError e \<Rightarrow> None
           | Done rc thumbnail_bytes \<Rightarrow> if rc \<noteq> 0 then None else Some thumbnail_bytes))"


section \<open>LeaseUploader\<close>

text \<open>\<open>response.raise_for_status()\<close>: an \<open>HTTPError\<close> carrying the response for 4xx and 5xx.\<close>

definition raise_for_status :: "'a response \<Rightarrow> exn option" where
  "raise_for_status r =
     (if 400 \<le> status_code r \<and> status_code r < 600
      then Some (PyExn ''HTTPError'' (AttrResponse (resp_text r))) else None)"

text \<open>
  \<open>get_video_upload_lease\<close> (lines 330-379). The handler logs, and only inside
  \<open>if hasattr(e, 'response')\<close> reads \<open>e.response.text\<close> and re-raises; for an
  exception without that attribute the function runs off its end and returns \<open>None\<close>.
\<close>

definition get_video_upload_lease :: "snapshot \<Rightarrow> string \<Rightarrow> filearg \<Rightarrow> exn + lease option" where
  "get_video_upload_lease sn token file_path =
     (let attempt =
        (case file_path of
           Buffer b \<Rightarrow> Inl type_error
         | FilePath p \<Rightarrow>
             (case os_getsize sn p of
                Inl e \<Rightarrow> Inl e
              | Inr nbytes \<Rightarrow>
                  (case video_lease_endpoint sn token p of
                     Inl e \<Rightarrow> Inl e
                   | Inr response \<Rightarrow>
                       (case raise_for_status response of
                          Some e \<Rightarrow> Inl e
                        | None \<Rightarrow>
                            (case body response of
                               Inl e \<Rightarrow> Inl e
                             | Inr lease \<Rightarrow>
                                 if lease_fields lease = None \<or> lease_action lease = None
                                 then Inl plain_exception
                                 else Inr lease)))))
      in case attempt of
           Inr lease \<Rightarrow> Inr (Some lease)
         | Inl e \<Rightarrow>
             (case exn_response e of
                NoAttr \<Rightarrow> Inr None
              | AttrNone \<Rightarrow> Inl attribute_error
              | AttrResponse t \<Rightarrow> Inl e))"

text \<open>
  \<open>get_thumbnail_upload_lease\<close> (lines 381-430): the same body against the image
  endpoint; here \<open>raise\<close> stands at the handler's own level.
\<close>

definition get_thumbnail_upload_lease :: "snapshot \<Rightarrow> string \<Rightarrow> filearg \<Rightarrow> exn + lease" where
  "get_thumbnail_upload_lease sn token thumbnail_path =
     (let attempt =
        (case thumbnail_path of
           Buffer b \<Rightarrow> Inl type_error
         | FilePath p \<Rightarrow>
             (case os_getsize sn p of
                Inl e \<Rightarrow> Inl e
              | Inr nbytes \<Rightarrow>
                  (case image_lease_endpoint sn token p of
                     Inl e \<Rightarrow> Inl e
                   | Inr response \<Rightarrow>
                       (case raise_for_status response of
                          Some e \<Rightarrow> Inl e
                        | None \<Rightarrow>
                            (case body response of
                               Inl e \<Rightarrow> Inl e
                             | Inr lease \<Rightarrow>
                                 if lease_fields lease = None \<or> lease_action lease = None
                                 then Inl plain_exception
                                 else Inr lease)))))
      in case attempt of
           Inr lease \<Rightarrow> Inr lease
         | Inl e \<Rightarrow>
             (case exn_response e of
                NoAttr \<Rightarrow> Inl e
              | AttrNone \<Rightarrow> Inl attribute_error
              | AttrResponse t \<Rightarrow> Inl e))"

text \<open>
  \<open>upload_to_s3\<close> (lines 432-458). The lease argument is whatever the lease
  function returned, \<open>None\<close> included. The handler re-raises every exception. The
  value returned is \<open>.text\<close> of the \<open>Location\<close> element that \<open>root.find\<close> gave.
\<close>

definition upload_to_s3 :: "snapshot \<Rightarrow> lease option \<Rightarrow> filearg \<Rightarrow> exn + string option" where
  "upload_to_s3 sn lease file_path =
     (case (case file_path of Buffer b \<Rightarrow> Inl type_error | FilePath p \<Rightarrow> read_file sn p) of
        Inl e \<Rightarrow> Inl e
      | Inr content \<Rightarrow>
          (case lease of
             None \<Rightarrow> Inl type_error
           | Some l \<Rightarrow>
               (case lease_fields l of
                  None \<Rightarrow> Inl key_error
                | Some data \<Rightarrow>
                    (case lease_action l of
                       None \<Rightarrow> Inl key_error
                     | Some act \<Rightarrow>
                         (case s3_endpoint sn act data content of
                            Inl e \<Rightarrow> Inl e
                          | Inr response \<Rightarrow>
                              (case raise_for_status response of
                                 Some e \<Rightarrow> Inl e
                               | None \<Rightarrow>
                                   (case body response of
                                      Inl e \<Rightarrow> Inl e
                                    | Inr None \<Rightarrow> Inl attribute_error
                                    | Inr (Some location) \<Rightarrow> Inr (elem_text location))))))))"

section \<open>DirectSubmitter\<close>

text \<open>\<open>get_reddit_token\<close> (lines 297-328); its handler re-raises.\<close>

definition get_reddit_token :: "snapshot \<Rightarrow> exn + string" where
  "get_reddit_token sn =
     (case token_endpoint sn of
        Inl e \<Rightarrow> Inl e
      | Inr response \<Rightarrow>
          (case raise_for_status response of
             Some e \<Rightarrow> Inl e
           | None \<Rightarrow>
               (case body response of
                  Inl e \<Rightarrow> Inl e
                | Inr None \<Rightarrow> Inl plain_exception
                | Inr (Some access_token) \<Rightarrow> Inr access_token)))"

text \<open>The configured subreddit; the value is the default of the environment variable.\<close>

definition SUBREDDIT_NAME :: string where
  "SUBREDDIT_NAME = ''inkwisp''"

text \<open>Truth value of an optional string in an \<open>if\<close>: \<open>None\<close> and the empty string are false.\<close>

definition truthy :: "string option \<Rightarrow> bool" where
  "truthy v = (case v of None \<Rightarrow> False | Some x \<Rightarrow> x \<noteq> [])"

text \<open>
  Truth value of an optional file argument: a \<open>BytesIO\<close> object is always true, a path
  is true when it is not empty.
\<close>

definition truthy_file :: "filearg option \<Rightarrow> bool" where
  "truthy_file v =
     (case v of None \<Rightarrow> False | Some (Buffer b) \<Rightarrow> True | Some (FilePath p) \<Rightarrow> p \<noteq> [])"

text \<open>
  \<open>submit_video_direct\<close> (lines 460-511): every exception of the body ends in
  \<open>return None\<close>.
\<close>

definition submit_video_direct :: "snapshot \<Rightarrow> string \<Rightarrow> filearg \<Rightarrow> filearg option \<Rightarrow> string option" where
  "submit_video_direct sn ttl video_path thumbnail_path =
     (case get_reddit_token sn of
        Inl e \<Rightarrow> None
      | Inr token \<Rightarrow>
          (case get_video_upload_lease sn token video_path of
             Inl e \<Rightarrow> None
           | Inr video_lease \<Rightarrow>
               (case upload_to_s3 sn video_lease video_path of
                  Inl e \<Rightarrow> None
                | Inr vurl \<Rightarrow>
                    (case (if truthy_file thumbnail_path
                           then (case get_thumbnail_upload_lease sn token (the thumbnail_path) of
                                   Inl e \<Rightarrow> Inl e
                                 | Inr thumbnail_lease \<Rightarrow>
                                     upload_to_s3 sn (Some thumbnail_lease) (the thumbnail_path))
                           else Inr None) of
                       Inl e \<Rightarrow> None
                     | Inr poster \<Rightarrow>
                         (case submit_endpoint sn token
                                 \<lparr>sr = SUBREDDIT_NAME, kind = ''video'', title = ttl,
                                  video_url = vurl,
                                  video_poster_url = (if truthy poster then poster else None),
                                  api_type = ''json''\<rparr> of
                            Inl e \<Rightarrow> None
                          | Inr response \<Rightarrow>
                              (case raise_for_status response of
                                 Some e \<Rightarrow> None
                               | None \<Rightarrow>
                                   (case body response of
                                      Inl e \<Rightarrow> None
                                    | Inr None \<Rightarrow> None
                                    | Inr (Some post_href) \<Rightarrow> Some post_href)))))))"


section \<open>Submission with readiness polling\<close>

text \<open>
  The state threaded through a submission: a clock that advances with every external
  interaction, and the list of those interactions in order. A call made at clock \<open>k\<close>
  is answered by the snapshot \<open>w k\<close>.
\<close>

datatype event =
    Validate string
  | ReadFile string
  | Thumbnail
  | DirectSubmit string
  | SubmitVideo string
  | Sleep nat
  | ListNew
  | Fetch string
  | Delete string
  | Head string

record st =
  clock :: nat
  trace :: "event list"

definition step :: "event \<Rightarrow> st \<Rightarrow> st" where
  "step ev s = s\<lparr>clock := Suc (clock s), trace := trace s @ [ev]\<rparr>"

text \<open>What \<open>safe_submit_video\<close> returns: a post URL, a submission object, or \<open>None\<close>.\<close>

datatype pyval = PostUrl string | Handle submission | PyNone

definition MAX_RETRIES :: nat where
  "MAX_RETRIES = 15"

definition RETRY_DELAY :: nat where
  "RETRY_DELAY = 10"

text \<open>\<open>not submission.media or "reddit_video" not in submission.media\<close> (line 738).\<close>

definition is_ghost :: "submission \<Rightarrow> bool" where
  "is_ghost sub =
     (case media sub of
        None \<Rightarrow> True
      | Some keys \<Rightarrow> keys = [] \<or> ''reddit_video'' \<notin> set keys)"

text \<open>
  One pass through the body of the polling loop (lines 734-753), up to the point where
  it returns, raises, or falls through to the wait: the fresh fetch, the ghost check
  with the delete, and the HEAD request on the fallback URL. The second component is
  the value of the variable \<open>submission\<close> afterwards.
\<close>

datatype poll_outcome = Ghost | Ready | NotReady | Raised exn

definition poll_step :: "world \<Rightarrow> submission \<Rightarrow> st \<Rightarrow> poll_outcome \<times> submission \<times> st" where
  "poll_step w submission s =
     (case reddit_submission (w (clock s)) (sub_id submission) of
        Inl e \<Rightarrow> (Raised e, submission, step (Fetch (sub_id submission)) s)
      | Inr fresh \<Rightarrow>
          (let s1 = step (Fetch (sub_id submission)) s in
           if is_ghost fresh
           then (case submission_delete (w (clock s1)) (sub_id fresh) of
                   Some e \<Rightarrow> (Raised e, fresh, step (Delete (sub_id fresh)) s1)
                 | None \<Rightarrow> (Ghost, fresh, step (Delete (sub_id fresh)) s1))
           else (case secure_media fresh of
                   SecureNone \<Rightarrow> (Raised attribute_error, fresh, s1)
                 | Secure vurl \<Rightarrow>
                     if truthy vurl
                     then (case requests_head (w (clock s1)) (the vurl) of
                             Inl e \<Rightarrow> (Raised e, fresh, step (Head (the vurl)) s1)
                           | Inr code \<Rightarrow>
                               if code = 200 then (Ready, fresh, step (Head (the vurl)) s1)
                               else (NotReady, fresh, step (Head (the vurl)) s1))
                     else (NotReady, fresh, s1))))"

text \<open>
  The polling loop (lines 727-767) from iteration \<open>attempt\<close> on. \<open>restart\<close> stands for
  the recursive call \<open>safe_submit_video(subreddit, title, video_path)\<close> of line 743;
  it sits inside the loop's \<open>try\<close>, so an exception out of it is handled like any
  other. \<open>Inl e\<close> is the \<open>raise\<close> of line 764, \<open>Inr PyNone\<close> after the last
  iteration is the \<open>return None\<close> of line 767.
\<close>

function poll_media ::
  "(st \<Rightarrow> (exn + pyval) \<times> st) \<Rightarrow> world \<Rightarrow> submission \<Rightarrow> nat \<Rightarrow> st
     \<Rightarrow> (exn + pyval) \<times> st" where
  "poll_media restart w submission attempt s =
     (if MAX_RETRIES \<le> attempt then (Inr PyNone, s)
      else case poll_step w submission s of
        (Ghost, fresh, s1) \<Rightarrow>
          (case restart s1 of
             (Inr v, s2) \<Rightarrow> (Inr v, s2)
           | (Inl e, s2) \<Rightarrow>
               if attempt < MAX_RETRIES - 1
               then poll_media restart w fresh (Suc attempt) (step (Sleep RETRY_DELAY) s2)
               else (Inl e, s2))
      | (Ready, fresh, s1) \<Rightarrow> (Inr (Handle fresh), s1)
      | (NotReady, fresh, s1) \<Rightarrow>
          poll_media restart w fresh (Suc attempt)
            (if attempt < MAX_RETRIES - 1 then step (Sleep RETRY_DELAY) s1 else s1)
      | (Raised e, fresh, s1) \<Rightarrow>
          if attempt < MAX_RETRIES - 1
          then poll_media restart w fresh (Suc attempt) (step (Sleep RETRY_DELAY) s1)
          else (Inl e, s1))"
  by pat_completeness auto
termination
  by (relation "measure (\<lambda>(restart, w, submission, attempt, s). MAX_RETRIES - attempt)") auto

declare poll_media.simps [simp del]

text \<open>
  Lines 675-725 of \<open>safe_submit_video\<close>: validation, thumbnail, direct submission,
  fallback submission through PRAW and the search for the new post. \<open>Inl e\<close>: the body
  raised \<open>e\<close>; \<open>Inr (Inl v)\<close>: it returned \<open>v\<close>; \<open>Inr (Inr submission)\<close>: it
  reached the polling loop with this post. The \<open>subreddit\<close> argument is the PRAW
  object behind the oracles. \<open>submit_video_direct\<close> returns \<open>None\<close> instead of
  raising, so the handler of lines 693-694 has no case of its own.
\<close>

definition safe_submit_prepare ::
  "world \<Rightarrow> string \<Rightarrow> string \<Rightarrow> st \<Rightarrow> (exn + (pyval + submission)) \<times> st" where
  "safe_submit_prepare w ttl video_path s =
     (let s1 = step (Validate video_path) s in
      if \<not> is_valid_mp4 (w (clock s)) (OnDisk video_path) then (Inl plain_exception, s1)
      else case read_file (w (clock s1)) video_path of
        Inl e \<Rightarrow> (Inl e, step (ReadFile video_path) s1)
      | Inr video_data \<Rightarrow>
          (let s2 = step (ReadFile video_path) s1;
               thumbnail_data = generate_thumbnail (w (clock s2)) video_data;
               s3 = step Thumbnail s2;
               post_url = submit_video_direct (w (clock s3)) ttl (FilePath video_path)
                            (map_option Buffer thumbnail_data);
               s4 = step (DirectSubmit ttl) s3
           in if truthy post_url then (Inr (Inl (PostUrl (the post_url))), s4)
              else case praw_submit_video (w (clock s4)) ttl video_path thumbnail_data of
                Some e \<Rightarrow> (Inl e, step (SubmitVideo ttl) s4)
              | None \<Rightarrow>
                  (let s5 = step (SubmitVideo ttl) s4;
                       s6 = step (Sleep 5) s5
                   in case submissions_new (w (clock s6)) of
                        Inl e \<Rightarrow> (Inl e, step ListNew s6)
                      | Inr posts \<Rightarrow>
                          (case find (\<lambda>post. sub_title post = ttl) posts of
                             None \<Rightarrow> (Inr (Inl PyNone), step ListNew s6)
                           | Some submission \<Rightarrow> (Inr (Inr submission), step ListNew s6)))))"

text \<open>
  The body of \<open>safe_submit_video\<close> (lines 672-779) around a given recursive call:
  the outer handler (lines 769-771) turns every exception of the body into
  \<open>return None\<close>; the \<open>finally\<close> block only closes the thumbnail buffer inside its
  own \<open>try\<close>.
\<close>

definition submit_with ::
  "(st \<Rightarrow> (exn + pyval) \<times> st) \<Rightarrow> world \<Rightarrow> string \<Rightarrow> string \<Rightarrow> st
     \<Rightarrow> (exn + pyval) \<times> st" where
  "submit_with restart w ttl video_path s =
     (case safe_submit_prepare w ttl video_path s of
        (Inl e, s1) \<Rightarrow> (Inr PyNone, s1)
      | (Inr (Inl v), s1) \<Rightarrow> (Inr v, s1)
      | (Inr (Inr submission), s1) \<Rightarrow>
          (case poll_media restart w submission 0 s1 of
             (Inl e, s2) \<Rightarrow> (Inr PyNone, s2)
           | (Inr v, s2) \<Rightarrow> (Inr v, s2)))"

text \<open>
  \<open>safe_submit_video\<close>. The source does not bound its ghost restarts; the
  interpreter does. The first argument is the number of nested calls of
  \<open>safe_submit_video\<close> that the interpreter's recursion limit still allows: when it
  is used up, the call of line 743 raises \<open>RecursionError\<close>, an \<open>Exception\<close>, at
  the place of the call.
\<close>

fun safe_submit_video ::
  "nat \<Rightarrow> world \<Rightarrow> string \<Rightarrow> string \<Rightarrow> st \<Rightarrow> (exn + pyval) \<times> st" where
  "safe_submit_video 0 w ttl video_path s =
     submit_with (\<lambda>s'. (Inl recursion_error, s')) w ttl video_path s"
| "safe_submit_video (Suc fuel) w ttl video_path s =
     submit_with (\<lambda>s'. safe_submit_video fuel w ttl video_path s') w ttl video_path s"

text \<open>
  Lines 918-939 of \<open>upload_to_reddit\<close>, the simpler path: the wait for video
  processing from iteration \<open>attempt\<close> on, and the final \<open>return\<close> of the permalink
  URL. Both the not-ready branch and the handler sleep and go on.
\<close>

definition has_reddit_video :: "submission \<Rightarrow> bool" where
  "has_reddit_video sub =
     (case media sub of
        None \<Rightarrow> False
      | Some keys \<Rightarrow> keys \<noteq> [] \<and> ''reddit_video'' \<in> set keys)"

definition max_retries :: nat where
  "max_retries = 6"

definition retry_delay :: nat where
  "retry_delay = 10"

function upload_wait :: "world \<Rightarrow> submission \<Rightarrow> nat \<Rightarrow> st \<Rightarrow> string \<times> st" where
  "upload_wait w submission attempt s =
     (if max_retries \<le> attempt then (''https://reddit.com'' @ permalink submission, s)
      else case reddit_submission (w (clock s)) (sub_id submission) of
        Inl e \<Rightarrow>
          upload_wait w submission (Suc attempt)
            (step (Sleep retry_delay) (step (Fetch (sub_id submission)) s))
      | Inr fresh \<Rightarrow>
          if has_reddit_video fresh
          then (''https://reddit.com'' @ permalink fresh, step (Fetch (sub_id submission)) s)
          else upload_wait w fresh (Suc attempt)
                 (step (Sleep retry_delay) (step (Fetch (sub_id submission)) s)))"
  by pat_completeness auto
termination
  by (relation "measure (\<lambda>(w, submission, attempt, s). max_retries - attempt)") auto

declare upload_wait.simps [simp del]


section \<open>Example worlds\<close>

text \<open>
  Concrete probe results, posts and snapshots on which the theorems below are
  exercised. \<open>sn_ok\<close> is a snapshot in which both tools are installed, a 30 second
  clip with a video and an audio stream is probed, the lease and object-store
  endpoints answer, the submit endpoint fails with status 500, and the post is
  ready.
\<close>

definition clip :: probe_info where
  "clip = \<lparr>duration = Finite 30, file_size = 50000000,
           streams = [\<lparr>codec_type = ''video'', codec_name = ''h264''\<rparr>,
                      \<lparr>codec_type = ''audio'', codec_name = ''aac''\<rparr>]\<rparr>"


definition post :: submission where
  "post = \<lparr>sub_id = ''abc'', sub_title = ''clip'', permalink = ''/r/inkwisp/comments/abc/clip/'',
           sub_url = ''https://v.redd.it/abc'', media = Some [''reddit_video''],
           secure_media = Secure (Some ''https://v.redd.it/abc/DASH_720.mp4'')\<rparr>"

definition sn_ok :: snapshot where
  "sn_ok = \<lparr>which_ffprobe = True, which_ffmpeg = True,
            ffprobe_media = (\<lambda>f. Exited 0 (Some clip)),
            ffprobe_dims = (\<lambda>p. Some (1920, 1080)),
            ffprobe_report = (\<lambda>p. True),
            ffmpeg_file = (\<lambda>cmd. True),
            ffmpeg_pipe = (\<lambda>b cmd. Done 0 ''out''),
            temp_file = Inr ''/tmp/tmp1.mp4'',
            read_file = (\<lambda>p. Inr ''data''),
            os_getsize = (\<lambda>p. Inr 50000000),
            token_endpoint = Inr \<lparr>status_code = 200, resp_text = ''{}'', body = Inr (Some ''tok'')\<rparr>,
            video_lease_endpoint = (\<lambda>t p. Inr \<lparr>status_code = 200, resp_text = ''{}'',
               body = Inr \<lparr>lease_action = Some ''https://s3/up'', lease_fields = Some [(''key'', ''k'')]\<rparr>\<rparr>),
            image_lease_endpoint = (\<lambda>t p. Inr \<lparr>status_code = 200, resp_text = ''{}'',
               body = Inr \<lparr>lease_action = Some ''https://s3/up'', lease_fields = Some [(''key'', ''k'')]\<rparr>\<rparr>),
            s3_endpoint = (\<lambda>a d c. Inr \<lparr>status_code = 201, resp_text = ''<PostResponse/>'',
               body = Inr (Some (Element (Some ''https://s3/up/k'')))\<rparr>),
            submit_endpoint = (\<lambda>t d. Inr \<lparr>status_code = 500, resp_text = ''error'', body = Inr None\<rparr>),
            praw_submit_video = (\<lambda>t p th. None),
            submissions_new = Inr [post],
            reddit_submission = (\<lambda>i. Inr post),
            submission_delete = (\<lambda>i. None),
            requests_head = (\<lambda>u. Inr 200)\<rparr>"

text \<open>
  Probe results for the transcoding policies: a clip of 1000 seconds under the size
  limit, the same clip as an encoder may leave it (840 seconds, grown past the size
  limit), and a clip over both limits. In \<open>sn_trim\<close> the buffer \<open>''long''\<close> probes
  as the first and the encoder's output \<open>''out''\<close> as the second.
\<close>

definition long_clip :: probe_info where
  "long_clip = clip\<lparr>duration := Finite 1000, file_size := 900000000\<rparr>"

definition grown_clip :: probe_info where
  "grown_clip = clip\<lparr>duration := Finite 840, file_size := 1200000000\<rparr>"

definition big_clip :: probe_info where
  "big_clip = clip\<lparr>duration := Finite 1000, file_size := 2000000000\<rparr>"

definition sn_trim :: snapshot where
  "sn_trim = sn_ok\<lparr>ffprobe_media := \<lambda>f.
       if f = TempCopy ''long'' then Exited 0 (Some long_clip)
       else if f = TempCopy ''out'' then Exited 0 (Some grown_clip)
       else Exited 0 (Some clip)\<rparr>"

definition sn_big :: snapshot where
  "sn_big = sn_ok\<lparr>ffprobe_media := \<lambda>f. Exited 0 (Some big_clip)\<rparr>"

text \<open>
  The double nearest to 51.2, which is what \<open>float('51.200000')\<close> returns, and a
  clip of that duration over the size limit; a clip whose duration is NaN.
\<close>

definition double_51_2 :: real where
  "double_51_2 = 7205759403792794 / 2 ^ 47"

definition odd_clip :: probe_info where
  "odd_clip = clip\<lparr>duration := Finite double_51_2, file_size := 2000000000\<rparr>"

definition nan_clip :: probe_info where
  "nan_clip = clip\<lparr>duration := NaN\<rparr>"

definition sn_odd :: snapshot where
  "sn_odd = sn_ok\<lparr>ffprobe_media := \<lambda>f. Exited 0 (Some odd_clip)\<rparr>"

text \<open>
  Snapshots for the leased upload: in \<open>sn_nolease\<close> both lease endpoints answer 200
  with the JSON object \<open>{}\<close>; in \<open>sn_empty_location\<close> the object store answers 201
  with an XML body whose \<open>Location\<close> element is empty.
\<close>

definition sn_nolease :: snapshot where
  "sn_nolease = sn_ok\<lparr>
     video_lease_endpoint := \<lambda>t p. Inr \<lparr>status_code = 200, resp_text = ''{}'',
        body = Inr \<lparr>lease_action = None, lease_fields = None\<rparr>\<rparr>,
     image_lease_endpoint := \<lambda>t p. Inr \<lparr>status_code = 200, resp_text = ''{}'',
        body = Inr \<lparr>lease_action = None, lease_fields = None\<rparr>\<rparr>\<rparr>"

definition sn_empty_location :: snapshot where
  "sn_empty_location = sn_ok\<lparr>
     s3_endpoint := \<lambda>a d c. Inr \<lparr>status_code = 201,
        resp_text = ''<PostResponse><Location/></PostResponse>'',
        body = Inr (Some (Element None))\<rparr>\<rparr>"

definition good_lease :: lease where
  "good_lease = \<lparr>lease_action = Some ''https://s3/up'', lease_fields = Some [(''key'', ''k'')]\<rparr>"

text \<open>Observers of a trace: the number of fetches, and the sleep durations in order.\<close>

definition fetches :: "event list \<Rightarrow> nat" where
  "fetches tr = length (filter (\<lambda>ev. case ev of Fetch i \<Rightarrow> True | _ \<Rightarrow> False) tr)"

definition sleeps :: "event list \<Rightarrow> nat list" where
  "sleeps tr = concat (map (\<lambda>ev. case ev of Sleep n \<Rightarrow> [n] | _ \<Rightarrow> []) tr)"

text \<open>
  Worlds for the polling loops. \<open>ghost_post\<close> is the post without a media payload.
  In \<open>sn_pending\<close> the HEAD request on the video URL answers 404; in \<open>sn_stuck\<close>
  the post has a media payload without a fallback URL; in \<open>sn_ghost\<close> every fetch
  shows the ghost post; in \<open>sn_delete_fails\<close> its deletion raises as well. The
  worlds \<open>w_delete_fails\<close> and \<open>w_one_ghost\<close> turn into \<open>sn_ok\<close> at clock 9, and
  \<open>w_ghost_first\<close> at clock 2.
\<close>

definition ghost_post :: submission where
  "ghost_post = post\<lparr>media := None\<rparr>"

definition sn_pending :: snapshot where
  "sn_pending = sn_ok\<lparr>requests_head := \<lambda>u. Inr 404\<rparr>"

definition sn_stuck :: snapshot where
  "sn_stuck = sn_ok\<lparr>reddit_submission := \<lambda>i. Inr (post\<lparr>secure_media := Secure None\<rparr>)\<rparr>"

definition sn_ghost :: snapshot where
  "sn_ghost = sn_ok\<lparr>reddit_submission := \<lambda>i. Inr ghost_post\<rparr>"

definition sn_delete_fails :: snapshot where
  "sn_delete_fails = sn_ghost\<lparr>submission_delete := \<lambda>i. Some (PyExn ''APIException'' NoAttr)\<rparr>"

definition w_delete_fails :: world where
  "w_delete_fails k = (if k < 9 then sn_delete_fails else sn_ok)"

definition w_one_ghost :: world where
  "w_one_ghost k = (if k < 9 then sn_ghost else sn_ok)"

definition w_ghost_first :: world where
  "w_ghost_first k = (if k < 2 then sn_ghost else sn_ok)"

definition s0 :: st where
  "s0 = \<lparr>clock = 0, trace = []\<rparr>"

section \<open>Properties of the validators\<close>

lemma is_valid_mp4_probed:
  assumes "which_ffprobe sn" and "ffprobe_media sn path = Exited rc (Some info)"
  shows "is_valid_mp4 sn path \<longleftrightarrow>
           rc = 0 \<and> \<not> float_le (duration info) 0 \<and> \<not> float_gt (duration info) 900
           \<and> file_size info \<le> 1000000000
           \<and> list_ex (\<lambda>s. codec_type s = ''video'') (streams info)"
  using assms by (auto simp: is_valid_mp4_def)



lemma in_range_iff:
  "d \<noteq> NaN \<Longrightarrow> (\<not> float_le d 0 \<and> \<not> float_gt d 900) = (float_gt d 0 \<and> float_le d 900)"
  by (cases d) auto

text \<open>
  C6, as the claim states it, fails on a probe result whose duration is NaN: both
  comparisons of line 183 are false for NaN, so \<open>is_valid_mp4\<close> accepts a duration
  that does not lie in (0, 900].
\<close>

theorem is_valid_mp4_accepts_nan:
  "\<not> (float_gt (duration nan_clip) 0 \<and> float_le (duration nan_clip) 900)
   \<and> is_valid_mp4 (sn_ok\<lparr>ffprobe_media := \<lambda>f. Exited 0 (Some nan_clip)\<rparr>) (OnDisk ''clip.mp4'')"
  by (simp add: is_valid_mp4_def sn_ok_def nan_clip_def clip_def)

text \<open>
  C6, amended. When ffprobe is installed and its run on the file succeeded with a probe
  result: if the duration is a number or an infinity, \<open>is_valid_mp4\<close> accepts exactly
  when the duration lies in (0, 900], the size is at most 1000000000 bytes and some
  stream has codec type video; every probe result with a duration of at most 0 or
  above 900 is rejected; and a duration that is NaN passes the duration test, so that
  size and video stream alone decide.
\<close>

theorem is_valid_mp4_accepts_iff:
  assumes "which_ffprobe sn" and "ffprobe_media sn path = Exited 0 (Some info)"
  shows "(duration info \<noteq> NaN \<longrightarrow>
            (is_valid_mp4 sn path \<longleftrightarrow>
               float_gt (duration info) 0 \<and> float_le (duration info) 900
               \<and> file_size info \<le> 1000000000
               \<and> list_ex (\<lambda>s. codec_type s = ''video'') (streams info)))
       \<and> (float_le (duration info) 0 \<or> float_gt (duration info) 900 \<longrightarrow> \<not> is_valid_mp4 sn path)
       \<and> (duration info = NaN \<longrightarrow>
            (is_valid_mp4 sn path \<longleftrightarrow>
               file_size info \<le> 1000000000
               \<and> list_ex (\<lambda>s. codec_type s = ''video'') (streams info)))"
proof -
  note p = is_valid_mp4_probed [OF assms]
  have a: "is_valid_mp4 sn path \<longleftrightarrow>
               float_gt (duration info) 0 \<and> float_le (duration info) 900
               \<and> file_size info \<le> 1000000000
               \<and> list_ex (\<lambda>s. codec_type s = ''video'') (streams info)"
    if "duration info \<noteq> NaN"
    using p in_range_iff [OF that] by blast
  have b: "\<not> is_valid_mp4 sn path"
    if "float_le (duration info) 0 \<or> float_gt (duration info) 900"
    using p that by blast
  have c: "is_valid_mp4 sn path \<longleftrightarrow>
               file_size info \<le> 1000000000
               \<and> list_ex (\<lambda>s. codec_type s = ''video'') (streams info)"
    if "duration info = NaN"
    using p that by simp
  show ?thesis using a b c by blast
qed

theorem is_valid_mp4_accepts_iff_witness:
  "which_ffprobe sn_ok \<and> ffprobe_media sn_ok (OnDisk ''clip.mp4'') = Exited 0 (Some clip)
   \<and> is_valid_mp4 sn_ok (OnDisk ''clip.mp4'')
   \<and> \<not> is_valid_mp4 (sn_ok\<lparr>ffprobe_media := \<lambda>f. Exited 0 (Some (clip\<lparr>duration := Finite 901\<rparr>))\<rparr>)
          (OnDisk ''clip.mp4'')
   \<and> \<not> is_valid_mp4 (sn_ok\<lparr>ffprobe_media := \<lambda>f. Exited 0 (Some (clip\<lparr>duration := Finite 0\<rparr>))\<rparr>)
          (OnDisk ''clip.mp4'')
   \<and> is_valid_mp4 (sn_ok\<lparr>ffprobe_media := \<lambda>f. Exited 0 (Some nan_clip)\<rparr>) (OnDisk ''clip.mp4'')"
proof -
  let ?p = "OnDisk ''clip.mp4''"
  have a: "which_ffprobe sn_ok" by (simp add: sn_ok_def)
  have b: "ffprobe_media sn_ok ?p = Exited 0 (Some clip)"
    by (simp add: sn_ok_def)
  have c: "is_valid_mp4 sn_ok ?p"
    using is_valid_mp4_accepts_iff [OF a b] by (simp add: clip_def)
  let ?long = "sn_ok\<lparr>ffprobe_media := \<lambda>f. Exited 0 (Some (clip\<lparr>duration := Finite 901\<rparr>))\<rparr>"
  have d: "\<not> is_valid_mp4 ?long ?p"
    using is_valid_mp4_accepts_iff [of ?long ?p "clip\<lparr>duration := Finite 901\<rparr>"]
    by (simp add: sn_ok_def)
  let ?zero = "sn_ok\<lparr>ffprobe_media := \<lambda>f. Exited 0 (Some (clip\<lparr>duration := Finite 0\<rparr>))\<rparr>"
  have e: "\<not> is_valid_mp4 ?zero ?p"
    using is_valid_mp4_accepts_iff [of ?zero ?p "clip\<lparr>duration := Finite 0\<rparr>"]
    by (simp add: sn_ok_def)
  let ?nan = "sn_ok\<lparr>ffprobe_media := \<lambda>f. Exited 0 (Some nan_clip)\<rparr>"
  have f: "is_valid_mp4 ?nan ?p"
    using is_valid_mp4_accepts_iff [of ?nan ?p nan_clip]
    by (simp add: sn_ok_def nan_clip_def clip_def)
  show ?thesis using a b c d e f by simp
qed



text \<open>
  C8. When \<open>shutil.which('ffprobe')\<close> finds nothing, both validators return true
  without looking at the file, whatever a probe of it would have reported.
\<close>

theorem validators_pass_without_ffprobe:
  "\<not> which_ffprobe sn \<Longrightarrow> validate_video sn path \<and> is_valid_mp4 sn path"
  by (simp add: validate_video_def is_valid_mp4_def)

theorem validators_pass_without_ffprobe_witness:
  "\<not> which_ffprobe (sn_ok\<lparr>which_ffprobe := False, ffprobe_media := \<lambda>f. Exited 1 None\<rparr>)
   \<and> validate_video (sn_ok\<lparr>which_ffprobe := False, ffprobe_media := \<lambda>f. Exited 1 None\<rparr>) (OnDisk ''x.mp4'')
   \<and> is_valid_mp4 (sn_ok\<lparr>which_ffprobe := False, ffprobe_media := \<lambda>f. Exited 1 None\<rparr>) (OnDisk ''x.mp4'')"
proof -
  have a: "\<not> which_ffprobe (sn_ok\<lparr>which_ffprobe := False, ffprobe_media := \<lambda>f. Exited 1 None\<rparr>)"
    by simp
  show ?thesis using a validators_pass_without_ffprobe [OF a] by simp
qed

section \<open>Properties of the float model\<close>

lemma pow2_big: "r < 2 ^ 64 \<Longrightarrow> \<not> pow2 1024 \<le> r"
proof -
  assume a: "r < 2 ^ 64"
  have "(2::real) ^ 64 \<le> 2 ^ 1024" by (rule power_increasing) simp_all
  then show ?thesis using a by (simp add: pow2_def)
qed

text \<open>How \<open>round_double\<close> is evaluated at a positive number with exponent up to 52.\<close>

lemma round_double_eval:
  assumes x: "0 < x"
    and e: "ilog2 x = e" "- 1022 \<le> e" "e \<le> 52"
    and n: "round_half_even (x * 2 ^ nat (52 - e)) = n"
    and r: "r = of_int n / 2 ^ nat (52 - e)" "r < 2 ^ 64"
  shows "round_double x = Finite r"
proof -
  have q: "pow2 (e - 52) = 1 / 2 ^ nat (52 - e)"
    using e by (auto simp: pow2_def)
  have m: "max (ilog2 \<bar>x\<bar>) (- 1022) = e" using x e by simp
  have o: "\<not> pow2 1024 \<le> r" using r(2) by (rule pow2_big)
  have "round_double x = (let q = pow2 (e - 52); r = of_int (round_half_even (\<bar>x\<bar> / q)) * q
           in if pow2 1024 \<le> r then (if x < 0 then NegInf else PosInf)
              else Finite (if x < 0 then - r else r))"
    using x m unfolding round_double_def Let_def by simp
  also have "\<dots> = Finite r"
    using x n r(1) o unfolding Let_def q by simp
  finally show ?thesis .
qed

lemma pow2_powr: "pow2 k = 2 powr (of_int k)"
  by (simp add: pow2_def powr_real_of_int divide_inverse)

lemma pow2_pos: "0 < pow2 k"
  by (simp add: pow2_powr)

lemma pow2_mono: "j \<le> k \<Longrightarrow> pow2 j \<le> pow2 k"
  by (simp add: pow2_powr)

lemma pow2_succ: "pow2 (k + 1) = 2 * pow2 k"
  by (simp add: pow2_powr powr_add)

lemma pow2_pred: "pow2 (k - 1) = pow2 k / 2"
  by (simp add: pow2_powr powr_diff)

lemma pow2_ilog2_le: "0 < x \<Longrightarrow> pow2 (ilog2 x) \<le> x"
proof (induction x rule: ilog2.induct)
  case (1 x)
  show ?case
  proof (cases "2 \<le> x")
    case True
    then have "pow2 (ilog2 (x / 2)) \<le> x / 2" using 1 by simp
    moreover have "ilog2 x = ilog2 (x / 2) + 1" using True 1(3) by (subst ilog2.simps) simp
    ultimately show ?thesis by (simp add: pow2_succ)
  next
    case False
    show ?thesis
    proof (cases "x < 1")
      case True
      then have "pow2 (ilog2 (2 * x)) \<le> 2 * x" using 1 False by simp
      moreover have "ilog2 x = ilog2 (2 * x) - 1" using True False 1(3) by (subst ilog2.simps) simp
      ultimately show ?thesis by (simp add: pow2_pred)
    next
      case ge: False
      have "ilog2 x = 0" using ge False 1(3) by (subst ilog2.simps) simp
      then show ?thesis using ge by (simp add: pow2_def)
    qed
  qed
qed

lemma round_half_even_bounds:
  "0 \<le> x \<Longrightarrow> 0 \<le> round_half_even x \<and> of_int (round_half_even x) \<le> x + 1"
  unfolding round_half_even_def Let_def
  by (auto intro: order_trans) linarith+

lemma round_double_nonneg:
  assumes "0 \<le> x" and "round_double x = Finite q"
  shows "0 \<le> q"
proof (cases "x = 0")
  case True
  then show ?thesis using assms by (simp add: round_double_def)
next
  case False
  define m where "m = \<bar>x\<bar>"
  define k where "k = pow2 (max (ilog2 m) (- 1022) - 52)"
  have k: "0 < k" by (simp add: k_def pow2_pos)
  have "0 \<le> m / k" using k by (simp add: m_def)
  then have "0 \<le> round_half_even (m / k)" using round_half_even_bounds by blast
  then have "0 \<le> of_int (round_half_even (m / k)) * k" using k by simp
  moreover have "q = of_int (round_half_even (m / k)) * k"
    using assms False unfolding round_double_def Let_def m_def k_def
    by (simp split: if_splits)
  ultimately show ?thesis by simp
qed

lemma round_double_finite:
  assumes "0 < x" and "x \<le> 2 ^ 32"
  shows "\<exists>q. round_double x = Finite q"
proof -
  define k where "k = pow2 (max (ilog2 x) (- 1022) - 52)"
  have kpos: "0 < k" by (simp add: k_def pow2_pos)
  have kle: "k \<le> max x 1"
  proof (cases "- 1022 \<le> ilog2 x")
    case True
    then have "k = pow2 (ilog2 x - 52)" by (simp add: k_def max_def)
    also have "\<dots> \<le> pow2 (ilog2 x)" by (rule pow2_mono) simp
    also have "\<dots> \<le> x" using assms(1) by (rule pow2_ilog2_le)
    finally show ?thesis by simp
  next
    case False
    then have "k = pow2 (- 1074)" by (simp add: k_def max_def)
    also have "\<dots> \<le> pow2 0" by (rule pow2_mono) simp
    also have "\<dots> = 1" by (simp add: pow2_def)
    finally show ?thesis by simp
  qed
  have "of_int (round_half_even (x / k)) \<le> x / k + 1"
    using round_half_even_bounds [of "x / k"] assms(1) kpos by simp
  then have "of_int (round_half_even (x / k)) * k \<le> (x / k + 1) * k"
    using kpos by (simp only: mult_right_mono less_imp_le)
  also have "\<dots> = x + k" using kpos by (simp add: field_simps)
  also have "\<dots> \<le> 2 ^ 32 + max x 1" using assms(2) kle by simp
  also have "\<dots> < 2 ^ 64" using assms(2) by (simp add: max_def)
  finally have "\<not> pow2 1024 \<le> of_int (round_half_even (x / k)) * k" by (rule pow2_big)
  then show ?thesis
    using assms(1) unfolding round_double_def Let_def k_def by simp
qed

lemma ilog2_upper: "0 < x \<Longrightarrow> x < pow2 (ilog2 x + 1)"
proof (induction x rule: ilog2.induct)
  case (1 x)
  show ?case
  proof (cases "2 \<le> x")
    case True
    then have "x / 2 < pow2 (ilog2 (x / 2) + 1)" using 1 by simp
    then have "x < 2 * pow2 (ilog2 (x / 2) + 1)" by simp
    also have "\<dots> = pow2 (ilog2 (x / 2) + 1 + 1)" by (simp only: pow2_succ)
    finally have "x < pow2 (ilog2 (x / 2) + 1 + 1)" .
    moreover have "ilog2 x = ilog2 (x / 2) + 1" using True 1(3) by (subst ilog2.simps) simp
    ultimately show ?thesis by simp
  next
    case False
    show ?thesis
    proof (cases "x < 1")
      case True
      then have "2 * x < pow2 (ilog2 (2 * x) + 1)" using 1 False by simp
      also have "\<dots> = 2 * pow2 (ilog2 (2 * x))" by (simp only: pow2_succ)
      finally have "x < pow2 (ilog2 (2 * x))" by simp
      moreover have "ilog2 x = ilog2 (2 * x) - 1" using True False 1(3) by (subst ilog2.simps) simp
      ultimately show ?thesis by simp
    next
      case ge: False
      have "ilog2 x = 0" using ge False 1(3) by (subst ilog2.simps) simp
      then show ?thesis using False by (simp add: pow2_def)
    qed
  qed
qed

lemma pow2_less_cancel: "pow2 j < pow2 k \<Longrightarrow> j < k"
  by (simp add: pow2_powr)

lemma pow2_add: "pow2 (j + k) = pow2 j * pow2 k"
  by (simp add: pow2_powr powr_add)

lemma round_half_even_ge: "of_int n \<le> x \<Longrightarrow> n \<le> round_half_even x"
  unfolding round_half_even_def Let_def
  by (auto simp: le_floor_iff) linarith+

lemma round_double_overflow:
  assumes "pow2 1024 \<le> x"
  shows "round_double x = PosInf"
proof -
  have x: "0 < x" using assms pow2_pos [of 1024] by linarith
  define e where "e = ilog2 x"
  have "pow2 1024 < pow2 (e + 1)" using assms ilog2_upper [OF x] by (simp add: e_def)
  then have e: "1024 \<le> e" using pow2_less_cancel by fastforce
  define q where "q = pow2 (e - 52)"
  have qpos: "0 < q" by (simp add: q_def pow2_pos)
  have "pow2 e = pow2 52 * q" using pow2_add [of 52 "e - 52"] by (simp add: q_def)
  moreover have "pow2 e \<le> x" using pow2_ilog2_le [OF x] by (simp add: e_def)
  ultimately have "pow2 52 \<le> x / q" using qpos by (simp add: pos_le_divide_eq)
  moreover have "pow2 52 = of_int (2 ^ 52)" by (simp add: pow2_def)
  ultimately have "2 ^ 52 \<le> round_half_even (x / q)" using round_half_even_ge by simp
  then have "of_int (2 ^ 52) \<le> (of_int (round_half_even (x / q)) :: real)" by linarith
  then have "pow2 52 * q \<le> of_int (round_half_even (x / q)) * q"
    using qpos \<open>pow2 52 = of_int (2 ^ 52)\<close> by (simp only: mult_right_mono less_imp_le)
  then have "pow2 e \<le> of_int (round_half_even (x / q)) * q"
    using \<open>pow2 e = pow2 52 * q\<close> by simp
  moreover have "pow2 1024 \<le> pow2 e" using e by (rule pow2_mono)
  ultimately have big: "pow2 1024 \<le> of_int (round_half_even (x / q)) * q" by linarith
  have m: "max (ilog2 \<bar>x\<bar>) (- 1022) = e" using x e by (simp add: e_def)
  show ?thesis
    using x m big unfolding round_double_def Let_def q_def by simp
qed

lemma float_div_1000: "float_div (700000000 * 8) (Finite 1000) = Inr (Finite 5600000)"
proof -
  have "round_double (5600000000 / 1000) = Finite 5600000"
    by (rule round_double_eval [where e = 22 and n = "5600000 * 2 ^ 30"])
       (simp_all add: ilog2.simps round_half_even_def Let_def)
  then show ?thesis by (simp add: float_div_def)
qed

text \<open>
  At the double nearest to 51.2 the exact quotient lies below 109375000, and the
  quotient that the division returns is 109375000.
\<close>

lemma float_div_51_2:
  "float_div (700000000 * 8) (Finite double_51_2) = Inr (Finite 109375000)
   \<and> \<lfloor>700000000 * 8 / double_51_2\<rfloor> = 109374999"
proof -
  have "round_double (5600000000 / (7205759403792794 / 2 ^ 47)) = Finite 109375000"
    by (rule round_double_eval [where e = 26 and n = "109375000 * 2 ^ 26"])
       (simp_all add: ilog2.simps round_half_even_def Let_def)
  then show ?thesis by (simp add: float_div_def double_51_2_def)
qed

text \<open>
  At the duration \<open>2 ^ -1000\<close>, a double, the quotient overflows to infinity, on
  which \<open>int()\<close> raises \<open>OverflowError\<close>.
\<close>

lemma float_div_tiny:
  "float_div (700000000 * 8) (Finite (1 / 2 ^ 1000)) = Inr PosInf"
proof -
  have "(2::real) ^ 1024 = 2 ^ 24 * 2 ^ 1000" by (simp only: power_add [symmetric]) simp
  also have "\<dots> \<le> 5600000000 * 2 ^ 1000" by (rule mult_right_mono) simp_all
  finally have "pow2 1024 \<le> 5600000000 / (1 / 2 ^ 1000)" by (simp add: pow2_def)
  then have "round_double (5600000000 / (1 / 2 ^ 1000)) = PosInf" by (rule round_double_overflow)
  then show ?thesis by (simp add: float_div_def)
qed

section \<open>Properties of the transcoding policies\<close>

lemma convert_video_revalidates:
  assumes "convert_video sn input_path output_path \<noteq> input_path"
  shows "convert_video sn input_path output_path = output_path \<and> is_valid_mp4 sn (OnDisk output_path)"
  using assms by (auto simp: convert_video_def split: option.splits if_splits)

lemma trim_returns_encoder_output:
  assumes "temp_file sn = Inr tmp"
    and "ffprobe_media sn (TempCopy video_data) = Exited rc (Some info)"
    and "needs_conversion (duration info) (file_size info)"
    and "conversion_params (duration info) (file_size info) = Inr params"
    and "ffmpeg_pipe sn video_data (ffmpeg_cmd tmp params) = Done 0 out"
  shows "validate_and_convert_video sn video_data = (Some out, [ffmpeg_cmd tmp params])"
  using assms by (simp add: validate_and_convert_video_def)

lemma conversion_params_long:
  assumes "float_gt d 840"
  shows "\<exists>rest. conversion_params d sz = Inr ([''-t'', ''840''] @ rest)"
proof (cases "1000000000 < sz")
  case False
  then show ?thesis using assms by (simp add: conversion_params_def)
next
  case True
  show ?thesis
  proof (cases d)
    case (Finite x)
    then have x: "840 < x" using assms by simp
    then have "5600000000 / x \<le> 5600000000 / 840"
      by (intro divide_left_mono) simp_all
    then have "0 < 5600000000 / x" "5600000000 / x \<le> 2 ^ 32" using x by simp_all
    from round_double_finite [OF this]
    obtain q where "round_double (5600000000 / x) = Finite q" by blast
    then show ?thesis
      using True Finite x
      by (simp add: conversion_params_def float_div_def py_int_def target_size_def)
  next
    case PosInf
    then show ?thesis
      using True by (simp add: conversion_params_def float_div_def py_int_def)
  next
    case NegInf
    then show ?thesis using assms by simp
  next
    case NaN
    then show ?thesis using assms by simp
  qed
qed

lemma conversion_params_big:
  assumes "1000000000 < sz" and "float_gt d 0"
    and "float_div (700000000 * 8) d = Inr (Finite q)"
  shows "conversion_params d sz =
           Inr ((if float_gt d 840 then [''-t'', ''840''] else []) @ [''-b:v'', str_int \<lfloor>q\<rfloor>])"
proof -
  have "0 \<le> q"
  proof (cases d)
    case (Finite x)
    then have "0 \<le> 5600000000 / x" "round_double (5600000000 / x) = Finite q"
      using assms(2,3) by (auto simp: float_div_def split: if_splits)
    then show ?thesis by (rule round_double_nonneg)
  next
    case PosInf
    then show ?thesis using assms(3) by (simp add: float_div_def)
  next
    case NegInf
    then show ?thesis using assms(2) by simp
  next
    case NaN
    then show ?thesis using assms(2) by simp
  qed
  then show ?thesis
    using assms(1,3) by (simp add: conversion_params_def py_int_def target_size_def)
qed

lemma conversion_params_abort:
  assumes "1000000000 < sz" and "\<forall>q. float_div (700000000 * 8) d \<noteq> Inr (Finite q)"
  shows "\<exists>e. conversion_params d sz = Inl e"
proof (cases "float_div (700000000 * 8) d")
  case (Inl e)
  then show ?thesis using assms(1) by (simp add: conversion_params_def target_size_def)
next
  case (Inr f)
  then have "\<exists>e. py_int f = Inl e" using assms(2) by (cases f) (auto simp: py_int_def)
  then show ?thesis using assms(1) Inr by (auto simp: conversion_params_def target_size_def)
qed

lemma trim_commands:
  assumes "temp_file sn = Inr tmp"
    and "ffprobe_media sn (TempCopy video_data) = Exited rc (Some info)"
    and "conversion_params (duration info) (file_size info) = Inr params"
  shows "snd (validate_and_convert_video sn video_data) =
           (if needs_conversion (duration info) (file_size info) then [ffmpeg_cmd tmp params] else [])"
  using assms by (simp add: validate_and_convert_video_def Let_def split: proc.splits)

lemma trim_passes_through:
  assumes "temp_file sn = Inr tmp"
    and "ffprobe_media sn (TempCopy video_data) = Exited rc (Some info)"
    and "\<not> needs_conversion (duration info) (file_size info)"
  shows "validate_and_convert_video sn video_data = (Some video_data, [])"
  using assms by (simp add: validate_and_convert_video_def needs_conversion_def conversion_params_def)

lemma trim_encode_failure:
  assumes "needs_conversion (duration info) (file_size info)"
    and "ffprobe_media sn (TempCopy video_data) = Exited rc (Some info)"
    and "\<forall>cmd out. ffmpeg_pipe sn video_data cmd \<noteq> Done 0 out"
  shows "fst (validate_and_convert_video sn video_data) = None"
  using assms
  by (auto simp: validate_and_convert_video_def Let_def split: sum.splits proc.splits)

lemma trim_aborts:
  assumes "ffprobe_media sn (TempCopy video_data) = Exited rc (Some info)"
    and "conversion_params (duration info) (file_size info) = Inl e"
  shows "validate_and_convert_video sn video_data = (None, [])"
  using assms by (simp add: validate_and_convert_video_def split: sum.splits)

text \<open>
  C3, as the claim states it, fails for the constraint-trim policy: in \<open>sn_trim\<close> the
  1000 second clip is re-encoded, the encoder's output is over the size limit, so that
  \<open>is_valid_mp4\<close> would reject it, and \<open>validate_and_convert_video\<close> returns it all
  the same.
\<close>

theorem trim_output_not_rechecked:
  "fst (validate_and_convert_video sn_trim ''long'') = Some ''out''
   \<and> \<not> is_valid_mp4 sn_trim (TempCopy ''out'')"
  by (simp add: validate_and_convert_video_def sn_trim_def sn_ok_def long_clip_def grown_clip_def
       clip_def conversion_params_def needs_conversion_def is_valid_mp4_def)

text \<open>
  C3, amended. The resize policy \<open>convert_video\<close> hands out its converted file only
  after \<open>is_valid_mp4\<close> accepted it: whenever it returns something else than the
  input path, that is the output path, and \<open>is_valid_mp4\<close> holds of it. The
  constraint-trim policy \<open>validate_and_convert_video\<close> returns what the encoder wrote
  as soon as the encoder exits with 0, with no check of that output.
\<close>

theorem transcoder_output_checks:
  "(convert_video sn input_path output_path \<noteq> input_path \<longrightarrow>
      convert_video sn input_path output_path = output_path
      \<and> is_valid_mp4 sn (OnDisk output_path))
   \<and> (temp_file sn = Inr tmp
      \<and> ffprobe_media sn (TempCopy video_data) = Exited rc (Some info)
      \<and> needs_conversion (duration info) (file_size info)
      \<and> conversion_params (duration info) (file_size info) = Inr params
      \<and> ffmpeg_pipe sn video_data (ffmpeg_cmd tmp params) = Done 0 out \<longrightarrow>
      validate_and_convert_video sn video_data = (Some out, [ffmpeg_cmd tmp params]))"
  using convert_video_revalidates [of sn input_path output_path]
    trim_returns_encoder_output [of sn tmp video_data rc info params out]
  by blast

theorem transcoder_output_checks_witness:
  "convert_video sn_trim ''in.mp4'' ''out.mp4'' = ''out.mp4''
   \<and> is_valid_mp4 sn_trim (OnDisk ''out.mp4'')
   \<and> validate_and_convert_video sn_trim ''long''
       = (Some ''out'', [ffmpeg_cmd ''/tmp/tmp1.mp4'' [''-t'', ''840'']])"
proof -
  have a: "convert_video sn_trim ''in.mp4'' ''out.mp4'' \<noteq> ''in.mp4''"
    by (simp add: convert_video_def sn_trim_def sn_ok_def is_valid_mp4_def clip_def)
  have b: "temp_file sn_trim = Inr ''/tmp/tmp1.mp4''"
    by (simp add: sn_trim_def sn_ok_def)
  have c: "ffprobe_media sn_trim (TempCopy ''long'') = Exited 0 (Some long_clip)"
    by (simp add: sn_trim_def)
  have d: "needs_conversion (duration long_clip) (file_size long_clip)"
    by (simp add: needs_conversion_def long_clip_def)
  have e: "conversion_params (duration long_clip) (file_size long_clip) = Inr [''-t'', ''840'']"
    by (simp add: conversion_params_def long_clip_def)
  have f: "ffmpeg_pipe sn_trim ''long'' (ffmpeg_cmd ''/tmp/tmp1.mp4'' [''-t'', ''840'']) = Done 0 ''out''"
    by (simp add: sn_trim_def sn_ok_def)
  show ?thesis
    using transcoder_output_checks [where sn = sn_trim and input_path = "''in.mp4''"
        and output_path = "''out.mp4''" and tmp = "''/tmp/tmp1.mp4''" and video_data = "''long''"
        and rc = 0 and info = long_clip and params = "[''-t'', ''840'']" and out = "''out''"]
      a b c d e f
    by blast
qed

text \<open>
  C5, as the claim states it, fails where the probe reports a duration of zero for a
  file of more than 1 GB: the division for the target bitrate raises, no encoder is
  started and the policy returns \<open>None\<close>.
\<close>

theorem trim_zero_duration_no_encode:
  "file_size (clip\<lparr>duration := Finite 0, file_size := 2000000000\<rparr>) > 1000000000
   \<and> validate_and_convert_video
        (sn_ok\<lparr>ffprobe_media := \<lambda>f. Exited 0 (Some (clip\<lparr>duration := Finite 0, file_size := 2000000000\<rparr>))\<rparr>)
        ''big'' = (None, [])"
  by (simp add: validate_and_convert_video_def sn_ok_def clip_def conversion_params_def
       float_div_def)

text \<open>
  C5, amended. For a buffer that was written to a temporary file and probed: if the
  duration exceeds 840 s, the one encoder command carries \<open>-t 840\<close>; if the size
  exceeds 1 GB, the duration is positive and the float quotient
  700000000 * 8 / duration, as the division computes it in double precision, is a
  finite number, the encoder command carries \<open>-b:v\<close> with the floor of that
  quotient; if neither limit is exceeded, the buffer is returned unchanged and no
  encoder runs; if a limit is exceeded and no encoder run exits with 0, the result
  is \<open>None\<close>; and if the size exceeds 1 GB and the division raises or its quotient
  is not a finite number, the result is \<open>None\<close> and no encoder is started.
\<close>

theorem constraint_trim_policy:
  assumes "temp_file sn = Inr tmp"
    and "ffprobe_media sn (TempCopy video_data) = Exited rc (Some info)"
  shows "(float_gt (duration info) 840 \<longrightarrow>
            (\<exists>rest. snd (validate_and_convert_video sn video_data)
                      = [ffmpeg_cmd tmp ([''-t'', ''840''] @ rest)]))
       \<and> (1000000000 < file_size info \<and> float_gt (duration info) 0
            \<and> float_div (700000000 * 8) (duration info) = Inr (Finite q) \<longrightarrow>
            snd (validate_and_convert_video sn video_data)
              = [ffmpeg_cmd tmp ((if float_gt (duration info) 840 then [''-t'', ''840''] else [])
                   @ [''-b:v'', str_int \<lfloor>q\<rfloor>])])
       \<and> (\<not> float_gt (duration info) 840 \<and> \<not> 1000000000 < file_size info \<longrightarrow>
            validate_and_convert_video sn video_data = (Some video_data, []))
       \<and> ((float_gt (duration info) 840 \<or> 1000000000 < file_size info)
            \<and> (\<forall>cmd out. ffmpeg_pipe sn video_data cmd \<noteq> Done 0 out) \<longrightarrow>
            fst (validate_and_convert_video sn video_data) = None)
       \<and> (1000000000 < file_size info
            \<and> (\<forall>x. float_div (700000000 * 8) (duration info) \<noteq> Inr (Finite x)) \<longrightarrow>
            validate_and_convert_video sn video_data = (None, []))"
proof -
  have p1: "\<exists>rest. snd (validate_and_convert_video sn video_data)
                      = [ffmpeg_cmd tmp ([''-t'', ''840''] @ rest)]"
    if d: "float_gt (duration info) 840"
  proof -
    obtain rest where r: "conversion_params (duration info) (file_size info)
                            = Inr ([''-t'', ''840''] @ rest)"
      using conversion_params_long [OF d] by blast
    have "needs_conversion (duration info) (file_size info)"
      using d by (simp add: needs_conversion_def)
    then show ?thesis
      using trim_commands [OF assms r] by auto
  qed
  have p2: "snd (validate_and_convert_video sn video_data)
              = [ffmpeg_cmd tmp ((if float_gt (duration info) 840 then [''-t'', ''840''] else [])
                   @ [''-b:v'', str_int \<lfloor>q\<rfloor>])]"
    if b: "1000000000 < file_size info" and d: "float_gt (duration info) 0"
      and f: "float_div (700000000 * 8) (duration info) = Inr (Finite q)"
  proof -
    have "needs_conversion (duration info) (file_size info)"
      using b by (simp add: needs_conversion_def)
    then show ?thesis
      using trim_commands [OF assms conversion_params_big [OF b d f]] by simp
  qed
  have p3: "validate_and_convert_video sn video_data = (Some video_data, [])"
    if "\<not> float_gt (duration info) 840" and "\<not> 1000000000 < file_size info"
    using trim_passes_through [OF assms] that by (simp add: needs_conversion_def)
  have p4: "fst (validate_and_convert_video sn video_data) = None"
    if "float_gt (duration info) 840 \<or> 1000000000 < file_size info"
      and "\<forall>cmd out. ffmpeg_pipe sn video_data cmd \<noteq> Done 0 out"
    using trim_encode_failure [OF _ assms(2) that(2)] that(1) by (simp add: needs_conversion_def)
  have p5: "validate_and_convert_video sn video_data = (None, [])"
    if b: "1000000000 < file_size info"
      and f: "\<forall>x. float_div (700000000 * 8) (duration info) \<noteq> Inr (Finite x)"
  proof -
    obtain e where "conversion_params (duration info) (file_size info) = Inl e"
      using conversion_params_abort [OF b f] by blast
    then show ?thesis using trim_aborts [OF assms(2)] by blast
  qed
  show ?thesis using p1 p2 p3 p4 p5 by blast
qed

theorem constraint_trim_policy_witness:
  "snd (validate_and_convert_video sn_big ''big'')
     = [ffmpeg_cmd ''/tmp/tmp1.mp4'' [''-t'', ''840'', ''-b:v'', ''5600000'']]
   \<and> snd (validate_and_convert_video sn_odd ''odd'')
     = [ffmpeg_cmd ''/tmp/tmp1.mp4'' [''-b:v'', ''109375000'']]
   \<and> validate_and_convert_video sn_ok ''data'' = (Some ''data'', [])
   \<and> fst (validate_and_convert_video (sn_big\<lparr>ffmpeg_pipe := \<lambda>b cmd. Done 1 []\<rparr>) ''big'') = None
   \<and> validate_and_convert_video
        (sn_ok\<lparr>ffprobe_media := \<lambda>f. Exited 0 (Some (clip\<lparr>duration := NaN, file_size := 2000000000\<rparr>))\<rparr>)
        ''big'' = (None, [])
   \<and> validate_and_convert_video
        (sn_ok\<lparr>ffprobe_media := \<lambda>f. Exited 0
            (Some (clip\<lparr>duration := Finite (1 / 2 ^ 1000), file_size := 2000000000\<rparr>))\<rparr>)
        ''big'' = (None, [])"
proof -
  have a: "temp_file sn_big = Inr ''/tmp/tmp1.mp4''"
    by (simp add: sn_big_def sn_ok_def)
  have b: "ffprobe_media sn_big (TempCopy ''big'') = Exited 0 (Some big_clip)"
    by (simp add: sn_big_def)
  have c: "1000000000 < file_size big_clip \<and> float_gt (duration big_clip) 0
             \<and> float_gt (duration big_clip) 840"
    by (simp add: big_clip_def)
  have q: "float_div (700000000 * 8) (duration big_clip) = Inr (Finite 5600000)"
    using float_div_1000 by (simp add: big_clip_def)
  have n: "str_int \<lfloor>5600000::real\<rfloor> = ''5600000''"
    by (simp add: str_int_def str_nat.simps)
  have r1: "snd (validate_and_convert_video sn_big ''big'')
              = [ffmpeg_cmd ''/tmp/tmp1.mp4'' [''-t'', ''840'', ''-b:v'', ''5600000'']]"
    using constraint_trim_policy [OF a b, where q = 5600000] c q n by simp
  have a2: "temp_file sn_odd = Inr ''/tmp/tmp1.mp4''"
    by (simp add: sn_odd_def sn_ok_def)
  have b2: "ffprobe_media sn_odd (TempCopy ''odd'') = Exited 0 (Some odd_clip)"
    by (simp add: sn_odd_def)
  have c2: "1000000000 < file_size odd_clip \<and> float_gt (duration odd_clip) 0
             \<and> \<not> float_gt (duration odd_clip) 840"
    by (simp add: odd_clip_def double_51_2_def)
  have q2: "float_div (700000000 * 8) (duration odd_clip) = Inr (Finite 109375000)"
    using float_div_51_2 by (simp add: odd_clip_def)
  have n2: "str_int \<lfloor>109375000::real\<rfloor> = ''109375000''"
    by (simp add: str_int_def str_nat.simps)
  have r2: "snd (validate_and_convert_video sn_odd ''odd'')
              = [ffmpeg_cmd ''/tmp/tmp1.mp4'' [''-b:v'', ''109375000'']]"
    using constraint_trim_policy [OF a2 b2, where q = 109375000] c2 q2 n2 by simp
  have d: "temp_file sn_ok = Inr ''/tmp/tmp1.mp4''"
    by (simp add: sn_ok_def)
  have e: "ffprobe_media sn_ok (TempCopy ''data'') = Exited 0 (Some clip)"
    by (simp add: sn_ok_def)
  have f: "\<not> float_gt (duration clip) 840 \<and> \<not> 1000000000 < file_size clip"
    by (simp add: clip_def)
  have r3: "validate_and_convert_video sn_ok ''data'' = (Some ''data'', [])"
    using constraint_trim_policy [OF d e] f by blast
  let ?fail = "sn_big\<lparr>ffmpeg_pipe := \<lambda>b cmd. Done 1 []\<rparr>"
  have g: "temp_file ?fail = Inr ''/tmp/tmp1.mp4''"
    by (simp add: sn_big_def sn_ok_def)
  have h: "ffprobe_media ?fail (TempCopy ''big'') = Exited 0 (Some big_clip)"
    by (simp add: sn_big_def)
  have i: "\<forall>cmd out. ffmpeg_pipe ?fail ''big'' cmd \<noteq> Done 0 out"
    by simp
  have r4: "fst (validate_and_convert_video ?fail ''big'') = None"
    using constraint_trim_policy [OF g h] c i by blast
  let ?nan = "sn_ok\<lparr>ffprobe_media := \<lambda>f. Exited 0 (Some (clip\<lparr>duration := NaN, file_size := 2000000000\<rparr>))\<rparr>"
  have j: "temp_file ?nan = Inr ''/tmp/tmp1.mp4''"
    by (simp add: sn_ok_def)
  have k: "ffprobe_media ?nan (TempCopy ''big'')
             = Exited 0 (Some (clip\<lparr>duration := NaN, file_size := 2000000000\<rparr>))"
    by simp
  have l: "1000000000 < file_size (clip\<lparr>duration := NaN, file_size := 2000000000\<rparr>)
           \<and> (\<forall>x. float_div (700000000 * 8) (duration (clip\<lparr>duration := NaN, file_size := 2000000000\<rparr>))
                  \<noteq> Inr (Finite x))"
    by (simp add: float_div_def)
  have r5: "validate_and_convert_video ?nan ''big'' = (None, [])"
    using constraint_trim_policy [OF j k] l by blast
  let ?tiny = "sn_ok\<lparr>ffprobe_media := \<lambda>f. Exited 0
            (Some (clip\<lparr>duration := Finite (1 / 2 ^ 1000), file_size := 2000000000\<rparr>))\<rparr>"
  let ?tc = "clip\<lparr>duration := Finite (1 / 2 ^ 1000), file_size := 2000000000\<rparr>"
  have t1: "temp_file ?tiny = Inr ''/tmp/tmp1.mp4''"
    by (simp add: sn_ok_def)
  have t2: "ffprobe_media ?tiny (TempCopy ''big'') = Exited 0 (Some ?tc)"
    by simp
  have t3: "duration ?tc = Finite (1 / 2 ^ 1000)" "1000000000 < file_size ?tc"
    by simp_all
  have t4: "\<forall>x. float_div (700000000 * 8) (duration ?tc) \<noteq> Inr (Finite x)"
    unfolding t3(1) float_div_tiny by simp
  have r6: "validate_and_convert_video ?tiny ''big'' = (None, [])"
    using constraint_trim_policy [OF t1 t2] t3(2) t4 by blast
  show ?thesis using r1 r2 r3 r4 r5 r6 by simp
qed

section \<open>Properties of the leased upload\<close>

lemma video_lease_missing_keys:
  assumes "os_getsize sn p = Inr n"
    and "video_lease_endpoint sn token p = Inr response"
    and "raise_for_status response = None"
    and "body response = Inr l"
    and "lease_fields l = None \<or> lease_action l = None"
  shows "get_video_upload_lease sn token (FilePath p) = Inr None"
  using assms by (auto simp: get_video_upload_lease_def plain_exception_def)

lemma thumbnail_lease_missing_keys:
  assumes "os_getsize sn p = Inr n"
    and "image_lease_endpoint sn token p = Inr response"
    and "raise_for_status response = None"
    and "body response = Inr l"
    and "lease_fields l = None \<or> lease_action l = None"
  shows "get_thumbnail_upload_lease sn token (FilePath p) = Inl plain_exception"
  using assms by (auto simp: get_thumbnail_upload_lease_def plain_exception_def)

text \<open>
  C4. The code at the failing input: both lease endpoints answer with status 200 and a
  JSON object that has neither \<open>action\<close> nor \<open>fields\<close>.
  \<open>get_thumbnail_upload_lease\<close> raises, as the claim says;
  \<open>get_video_upload_lease\<close> returns \<open>None\<close>.
\<close>

theorem video_lease_returns_none:
  "get_video_upload_lease sn_nolease ''tok'' (FilePath ''clip.mp4'') = Inr None
   \<and> get_thumbnail_upload_lease sn_nolease ''tok'' (FilePath ''thumb.jpg'') = Inl plain_exception"
  by (simp add: get_video_upload_lease_def get_thumbnail_upload_lease_def sn_nolease_def sn_ok_def
       raise_for_status_def plain_exception_def)

lemma upload_to_s3_cases:
  assumes "read_file sn p = Inr content"
    and "lease_fields l = Some data"
    and "lease_action l = Some act"
  shows "upload_to_s3 sn (Some l) (FilePath p) =
           (case s3_endpoint sn act data content of
              Inl e \<Rightarrow> Inl e
            | Inr response \<Rightarrow>
                (case raise_for_status response of
                   Some e \<Rightarrow> Inl e
                 | None \<Rightarrow>
                     (case body response of
                        Inl e \<Rightarrow> Inl e
                      | Inr None \<Rightarrow> Inl attribute_error
                      | Inr (Some location) \<Rightarrow> Inr (elem_text location))))"
  using assms by (simp add: upload_to_s3_def)

text \<open>
  C9, as the claim states it, fails on a response whose \<open>Location\<close> element is present
  and empty: \<open>upload_to_s3\<close> returns \<open>None\<close> and raises nothing.
\<close>

theorem upload_to_s3_empty_location:
  "upload_to_s3 sn_empty_location (Some good_lease) (FilePath ''clip.mp4'') = Inr None"
  by (simp add: upload_to_s3_def sn_empty_location_def sn_ok_def good_lease_def raise_for_status_def)

text \<open>
  C9, amended. \<open>upload_to_s3\<close> returns a value exactly when the file could be read,
  the lease has its \<open>fields\<close> and \<open>action\<close>, the request came back without an
  error status, the body parsed and \<open>root.find\<close> gave a \<open>Location\<close> element; the
  value is that element's \<open>.text\<close>, which is \<open>None\<close> for an empty element. In
  every other case, a failed request and a body without a \<open>Location\<close> element
  among them, it raises.
\<close>

theorem upload_to_s3_returns_location_text:
  "(upload_to_s3 sn lease file = Inr v \<longleftrightarrow>
      (\<exists>p content l data act response location.
          file = FilePath p \<and> read_file sn p = Inr content
        \<and> lease = Some l \<and> lease_fields l = Some data \<and> lease_action l = Some act
        \<and> s3_endpoint sn act data content = Inr response
        \<and> raise_for_status response = None
        \<and> body response = Inr (Some location)
        \<and> v = elem_text location))
   \<and> ((\<forall>v. upload_to_s3 sn lease file \<noteq> Inr v) \<longleftrightarrow> (\<exists>e. upload_to_s3 sn lease file = Inl e))"
proof -
  have a: "upload_to_s3 sn lease file = Inr v \<longleftrightarrow>
      (\<exists>p content l data act response location.
          file = FilePath p \<and> read_file sn p = Inr content
        \<and> lease = Some l \<and> lease_fields l = Some data \<and> lease_action l = Some act
        \<and> s3_endpoint sn act data content = Inr response
        \<and> raise_for_status response = None
        \<and> body response = Inr (Some location)
        \<and> v = elem_text location)"
    by (auto simp: upload_to_s3_def split: filearg.splits sum.splits option.splits)
  have b: "(\<forall>v. upload_to_s3 sn lease file \<noteq> Inr v) \<longleftrightarrow> (\<exists>e. upload_to_s3 sn lease file = Inl e)"
    by (cases "upload_to_s3 sn lease file") auto
  show ?thesis using a b by blast
qed

section \<open>Properties of the submission with readiness polling\<close>

lemma poll_step_ghost_intro:
  assumes "reddit_submission (w (clock s)) (sub_id sub) = Inr fresh"
    and "is_ghost fresh"
    and "submission_delete (w (Suc (clock s))) (sub_id fresh) = None"
  shows "poll_step w sub s = (Ghost, fresh, step (Delete (sub_id fresh)) (step (Fetch (sub_id sub)) s))"
  using assms by (simp add: poll_step_def Let_def step_def)

lemma poll_media_no_raise_from_restart:
  assumes "\<And>t. \<exists>v t'. restart t = (Inr v, t')"
  shows "attempt < MAX_RETRIES \<Longrightarrow> poll_step w sub s = (Ghost, fresh, s1) \<Longrightarrow>
         poll_media restart w sub attempt s = restart s1"
proof -
  assume a: "attempt < MAX_RETRIES" and b: "poll_step w sub s = (Ghost, fresh, s1)"
  obtain v t' where r: "restart s1 = (Inr v, t')" using assms by blast
  show ?thesis using a b r by (simp add: poll_media.simps)
qed

lemma submit_with_returns:
  "\<exists>v s'. submit_with restart w ttl p s = (Inr v, s')"
  unfolding submit_with_def
  by (auto split: prod.splits sum.splits)

lemma safe_submit_video_no_raise:
  "\<exists>v s'. safe_submit_video fuel w ttl p s = (Inr v, s')"
  by (cases fuel) (simp_all add: submit_with_returns)

lemma fetches_append [simp]: "fetches (a @ b) = fetches a + fetches b"
  by (simp add: fetches_def)

lemma sleeps_append [simp]: "sleeps (a @ b) = sleeps a @ sleeps b"
  by (simp add: sleeps_def)

lemma poll_step_pending:
  assumes present: "\<forall>k i. case reddit_submission (w k) i of Inl e \<Rightarrow> True | Inr fresh \<Rightarrow> \<not> is_ghost fresh"
    and nohead: "\<forall>k u. requests_head (w k) u \<noteq> Inr 200"
    and ps: "poll_step w sub s = (out, fresh, s1)"
  shows "(out = NotReady \<or> (\<exists>e. out = Raised e))
       \<and> (\<exists>tr. trace s1 = trace s @ tr \<and> fetches tr = 1 \<and> sleeps tr = [])"
proof -
  have p: "\<And>x. reddit_submission (w (clock s)) (sub_id sub) = Inr x \<Longrightarrow> \<not> is_ghost x"
    using present [rule_format, of "clock s" "sub_id sub"] by simp
  show ?thesis
    using ps p nohead
    by (auto simp: poll_step_def Let_def step_def fetches_def sleeps_def
        split: sum.splits option.splits secure_media.splits if_splits)
qed

lemma poll_media_timeout:
  assumes present: "\<forall>k i. case reddit_submission (w k) i of Inl e \<Rightarrow> True | Inr fresh \<Rightarrow> \<not> is_ghost fresh"
    and nohead: "\<forall>k u. requests_head (w k) u \<noteq> Inr 200"
  shows "attempt \<le> MAX_RETRIES \<Longrightarrow>
         \<exists>r s' tr. poll_media restart w sub attempt s = (r, s')
           \<and> (r = Inr PyNone \<or> (\<exists>e. r = Inl e))
           \<and> trace s' = trace s @ tr
           \<and> fetches tr = MAX_RETRIES - attempt
           \<and> sleeps tr = replicate (MAX_RETRIES - 1 - attempt) RETRY_DELAY"
proof (induction "MAX_RETRIES - attempt" arbitrary: sub attempt s)
  case 0
  then show ?case by (simp add: poll_media.simps fetches_def sleeps_def)
next
  case (Suc n)
  then have lt: "attempt < MAX_RETRIES" by simp
  obtain out fresh s1 where ps: "poll_step w sub s = (out, fresh, s1)"
    by (cases "poll_step w sub s") auto
  from poll_step_pending [OF present nohead ps]
  obtain tr1 where out: "out = NotReady \<or> (\<exists>e. out = Raised e)"
    and tr1: "trace s1 = trace s @ tr1" "fetches tr1 = 1" "sleeps tr1 = []"
    by blast
  have n: "n = MAX_RETRIES - Suc attempt" using Suc.hyps(2) by simp
  have le: "Suc attempt \<le> MAX_RETRIES" using lt by simp
  show ?case
  proof (cases "attempt < MAX_RETRIES - 1")
    case True
    let ?t = "step (Sleep RETRY_DELAY) s1"
    from Suc.hyps(1) [OF n le, of fresh ?t]
    obtain r s' tr where rec: "poll_media restart w fresh (Suc attempt) ?t = (r, s')"
      "r = Inr PyNone \<or> (\<exists>e. r = Inl e)" "trace s' = trace ?t @ tr"
      "fetches tr = MAX_RETRIES - Suc attempt"
      "sleeps tr = replicate (MAX_RETRIES - 1 - Suc attempt) RETRY_DELAY"
      by blast
    have pm: "poll_media restart w sub attempt s = (r, s')"
      using out lt True ps rec(1) by (auto simp: poll_media.simps)
    have t: "trace s' = trace s @ (tr1 @ [Sleep RETRY_DELAY] @ tr)"
      using rec(3) tr1(1) by (simp add: step_def)
    have f: "fetches (tr1 @ [Sleep RETRY_DELAY] @ tr) = MAX_RETRIES - attempt"
      using tr1(2) rec(4) lt by (simp add: fetches_def)
    have "sleeps (tr1 @ [Sleep RETRY_DELAY] @ tr) = RETRY_DELAY # replicate (MAX_RETRIES - 1 - Suc attempt) RETRY_DELAY"
      using tr1(3) rec(5) by (simp add: sleeps_def)
    also have "\<dots> = replicate (MAX_RETRIES - 1 - attempt) RETRY_DELAY"
      using True by (cases "MAX_RETRIES - 1 - attempt") auto
    finally have sl: "sleeps (tr1 @ [Sleep RETRY_DELAY] @ tr) = replicate (MAX_RETRIES - 1 - attempt) RETRY_DELAY" .
    show ?thesis using pm rec(2) t f sl by blast
  next
    case False
    then have last: "Suc attempt = MAX_RETRIES" using lt by simp
    have end_: "poll_media restart w fresh (Suc attempt) s1 = (Inr PyNone, s1)"
      using last by (simp add: poll_media.simps)
    from out show ?thesis
    proof
      assume "out = NotReady"
      then have "poll_media restart w sub attempt s = (Inr PyNone, s1)"
        using lt False ps end_ by (simp add: poll_media.simps)
      then show ?thesis using tr1 last False by auto
    next
      assume "\<exists>e. out = Raised e"
      then obtain e where "out = Raised e" by blast
      then have "poll_media restart w sub attempt s = (Inl e, s1)"
        using lt False ps by (simp add: poll_media.simps)
      then show ?thesis using tr1 last False by auto
    qed
  qed
qed

lemma submit_with_timeout:
  assumes prep: "safe_submit_prepare w ttl video_path s = (Inr (Inr submission), s1)"
    and present: "\<forall>k i. case reddit_submission (w k) i of Inl e \<Rightarrow> True | Inr fresh \<Rightarrow> \<not> is_ghost fresh"
    and nohead: "\<forall>k u. requests_head (w k) u \<noteq> Inr 200"
  shows "\<exists>s2 tr. submit_with restart w ttl video_path s = (Inr PyNone, s2)
           \<and> trace s2 = trace s1 @ tr \<and> fetches tr = 15 \<and> sleeps tr = replicate 14 10"
proof -
  from poll_media_timeout [OF present nohead, of 0 restart submission s1]
  obtain r s' tr where pm: "poll_media restart w submission 0 s1 = (r, s')"
    and r: "r = Inr PyNone \<or> (\<exists>e. r = Inl e)"
    and t: "trace s' = trace s1 @ tr" "fetches tr = MAX_RETRIES - 0"
      "sleeps tr = replicate (MAX_RETRIES - 1 - 0) RETRY_DELAY"
    by auto
  have "submit_with restart w ttl video_path s = (Inr PyNone, s')"
    using prep pm r by (auto simp: submit_with_def)
  then show ?thesis using t by (auto simp: MAX_RETRIES_def RETRY_DELAY_def)
qed

lemma safe_submit_video_timeout:
  assumes prep: "safe_submit_prepare w ttl video_path s = (Inr (Inr submission), s1)"
    and present: "\<forall>k i. case reddit_submission (w k) i of Inl e \<Rightarrow> True | Inr fresh \<Rightarrow> \<not> is_ghost fresh"
    and nohead: "\<forall>k u. requests_head (w k) u \<noteq> Inr 200"
  shows "\<exists>s2 tr. safe_submit_video fuel w ttl video_path s = (Inr PyNone, s2)
           \<and> trace s2 = trace s1 @ tr \<and> fetches tr = 15 \<and> sleeps tr = replicate 14 10"
proof (cases fuel)
  case 0
  show ?thesis
    using submit_with_timeout [OF assms, of "\<lambda>s'. (Inl recursion_error, s')"] 0 by simp
next
  case (Suc n)
  show ?thesis
    using submit_with_timeout [OF assms, of "safe_submit_video n w ttl video_path"] Suc by simp
qed

lemma upload_wait_timeout:
  assumes pend: "\<forall>k. case reddit_submission (w k) (sub_id submission) of Inl e \<Rightarrow> True
            | Inr fresh \<Rightarrow> \<not> has_reddit_video fresh \<and> sub_id fresh = sub_id submission
                \<and> permalink fresh = permalink submission"
  shows "attempt \<le> max_retries \<Longrightarrow> sub_id sub = sub_id submission \<Longrightarrow> permalink sub = permalink submission \<Longrightarrow>
         fst (upload_wait w sub attempt s) = ''https://reddit.com'' @ permalink submission
         \<and> trace (snd (upload_wait w sub attempt s))
             = trace s @ concat (replicate (max_retries - attempt) [Fetch (sub_id submission), Sleep retry_delay])"
proof (induction "max_retries - attempt" arbitrary: sub attempt s)
  case 0
  then show ?case by (simp add: upload_wait.simps)
next
  case (Suc n)
  then have lt: "attempt < max_retries" by simp
  have n: "n = max_retries - Suc attempt" using Suc.hyps(2) by simp
  have le: "Suc attempt \<le> max_retries" using lt by simp
  have rep: "replicate (max_retries - attempt) x = x # replicate (max_retries - Suc attempt) x" for x :: "event list"
    using lt by (cases "max_retries - attempt") auto
  let ?t = "step (Sleep retry_delay) (step (Fetch (sub_id sub)) s)"
  have tt: "trace ?t = trace s @ [Fetch (sub_id submission), Sleep retry_delay]"
    using Suc.prems(2) by (simp add: step_def)
  show ?case
  proof (cases "reddit_submission (w (clock s)) (sub_id sub)")
    case (Inl e)
    have u: "upload_wait w sub attempt s = upload_wait w sub (Suc attempt) ?t"
      using lt Inl by (subst upload_wait.simps) simp
    from Suc.hyps(1) [OF n le Suc.prems(2) Suc.prems(3), of ?t]
    show ?thesis using u tt rep by simp
  next
    case (Inr fresh)
    have fr: "\<not> has_reddit_video fresh \<and> sub_id fresh = sub_id submission
                \<and> permalink fresh = permalink submission"
      using pend [rule_format, of "clock s"] Inr Suc.prems(2) by simp
    have u: "upload_wait w sub attempt s = upload_wait w fresh (Suc attempt) ?t"
      using lt Inr fr by (subst upload_wait.simps) simp
    from Suc.hyps(1) [OF n le, of fresh ?t] fr
    show ?thesis using u tt rep by simp
  qed
qed

lemmas direct_defs = submit_video_direct_def get_reddit_token_def get_video_upload_lease_def
  upload_to_s3_def get_thumbnail_upload_lease_def truthy_file_def truthy_def
  raise_for_status_def type_error_def

lemmas prepare_defs = safe_submit_prepare_def Let_def step_def s0_def sn_ok_def
  is_valid_mp4_def clip_def generate_thumbnail_def direct_defs post_def

lemma prepare_pending:
  "safe_submit_prepare (\<lambda>k. sn_pending) ''clip'' ''clip.mp4'' s0 =
     (Inr (Inr post), \<lparr>clock = 7, trace = [Validate ''clip.mp4'', ReadFile ''clip.mp4'', Thumbnail,
         DirectSubmit ''clip'', SubmitVideo ''clip'', Sleep 5, ListNew]\<rparr>)"
  by (simp add: prepare_defs sn_pending_def)

lemma prepare_stuck:
  "safe_submit_prepare (\<lambda>k. sn_stuck) ''clip'' ''clip.mp4'' s0 =
     (Inr (Inr post), \<lparr>clock = 7, trace = [Validate ''clip.mp4'', ReadFile ''clip.mp4'', Thumbnail,
         DirectSubmit ''clip'', SubmitVideo ''clip'', Sleep 5, ListNew]\<rparr>)"
  by (simp add: prepare_defs sn_stuck_def)

text \<open>
  C1, as the claim states it, fails when the deletion of the ghost post raises: the
  loop's handler sleeps and polls the same post again, and no restart happens. In
  \<open>w_delete_fails\<close> the first poll finds a ghost and the delete raises; the second
  poll finds the post ready, and the one invocation returns that post.
\<close>

theorem ghost_delete_failure_keeps_polling:
  "safe_submit_video 2 w_delete_fails ''clip'' ''clip.mp4'' s0 =
     (Inr (Handle post),
       \<lparr>clock = 12, trace = [Validate ''clip.mp4'', ReadFile ''clip.mp4'', Thumbnail,
         DirectSubmit ''clip'', SubmitVideo ''clip'', Sleep 5, ListNew,
         Fetch ''abc'', Delete ''abc'', Sleep 10, Fetch ''abc'',
         Head ''https://v.redd.it/abc/DASH_720.mp4'']\<rparr>)"
  by (simp add: numeral_2_eq_2 submit_with_def prepare_defs w_delete_fails_def sn_delete_fails_def
      sn_ghost_def ghost_post_def poll_media.simps poll_step_def is_ghost_def MAX_RETRIES_def
      RETRY_DELAY_def)

text \<open>
  C1, amended. In any iteration of the polling loop, when the fresh fetch shows a post
  without a \<open>reddit_video\<close> media payload and the delete call succeeds, the loop
  does one fetch and one delete and then is the restarted pipeline: its result and
  every further effect are those of one call of \<open>safe_submit_video\<close> from the top,
  and the post is not polled again by this loop. The recursive call is one that the
  recursion limit still allows, with any remaining budget \<open>fuel\<close>.
\<close>

theorem ghost_poll_restarts_once:
  assumes "attempt < MAX_RETRIES"
    and "reddit_submission (w (clock s)) (sub_id submission) = Inr fresh"
    and "is_ghost fresh"
    and "submission_delete (w (Suc (clock s))) (sub_id fresh) = None"
  shows "poll_media (safe_submit_video fuel w ttl video_path) w submission attempt s
           = safe_submit_video fuel w ttl video_path
               (step (Delete (sub_id fresh)) (step (Fetch (sub_id submission)) s))"
proof -
  let ?s1 = "step (Delete (sub_id fresh)) (step (Fetch (sub_id submission)) s)"
  have ps: "poll_step w submission s = (Ghost, fresh, ?s1)"
    using poll_step_ghost_intro [OF assms(2-4)] .
  show ?thesis
    using poll_media_no_raise_from_restart
      [of "safe_submit_video fuel w ttl video_path", OF safe_submit_video_no_raise assms(1) ps] .
qed

theorem ghost_poll_restarts_once_witness:
  "poll_media (safe_submit_video 1 w_ghost_first ''clip'' ''clip.mp4'') w_ghost_first post 0 s0 =
     (Inr (Handle post),
       \<lparr>clock = 11, trace = [Fetch ''abc'', Delete ''abc'',
         Validate ''clip.mp4'', ReadFile ''clip.mp4'', Thumbnail,
         DirectSubmit ''clip'', SubmitVideo ''clip'', Sleep 5, ListNew,
         Fetch ''abc'', Head ''https://v.redd.it/abc/DASH_720.mp4'']\<rparr>)"
proof -
  have a: "0 < MAX_RETRIES" by (simp add: MAX_RETRIES_def)
  have b: "reddit_submission (w_ghost_first (clock s0)) (sub_id post) = Inr ghost_post"
    by (simp add: w_ghost_first_def sn_ghost_def s0_def)
  have c: "is_ghost ghost_post"
    by (simp add: is_ghost_def ghost_post_def)
  have d: "submission_delete (w_ghost_first (Suc (clock s0))) (sub_id ghost_post) = None"
    by (simp add: w_ghost_first_def sn_ghost_def sn_ok_def s0_def)
  have e: "safe_submit_video 1 w_ghost_first ''clip'' ''clip.mp4''
             (step (Delete (sub_id ghost_post)) (step (Fetch (sub_id post)) s0)) =
           (Inr (Handle post),
             \<lparr>clock = 11, trace = [Fetch ''abc'', Delete ''abc'',
               Validate ''clip.mp4'', ReadFile ''clip.mp4'', Thumbnail,
               DirectSubmit ''clip'', SubmitVideo ''clip'', Sleep 5, ListNew,
               Fetch ''abc'', Head ''https://v.redd.it/abc/DASH_720.mp4'']\<rparr>)"
    by (simp add: submit_with_def prepare_defs w_ghost_first_def ghost_post_def
        poll_media.simps poll_step_def is_ghost_def MAX_RETRIES_def RETRY_DELAY_def)
  show ?thesis
    using ghost_poll_restarts_once [OF a b c d, where fuel = 1 and ttl = "''clip''"
        and video_path = "''clip.mp4''"] e
    by simp
qed

text \<open>
  C2, as the claim states it, fails in the validate-heavy path: in a world where the
  post is found and keeps a media payload that never has a fallback URL,
  \<open>safe_submit_video\<close> polls 15 times and returns \<open>None\<close>, not the post.
\<close>

theorem safe_submit_timeout_returns_none:
  "\<exists>s2. safe_submit_video 1 (\<lambda>k. sn_stuck) ''clip'' ''clip.mp4'' s0 = (Inr PyNone, s2)
        \<and> fetches (trace s2) = 15"
proof -
  have pm: "\<exists>s'. poll_media restart (\<lambda>k. sn_stuck) post 0
              \<lparr>clock = 7, trace = [Validate ''clip.mp4'', ReadFile ''clip.mp4'', Thumbnail,
                 DirectSubmit ''clip'', SubmitVideo ''clip'', Sleep 5, ListNew]\<rparr>
            = (Inr PyNone, s') \<and> fetches (trace s') = 15" for restart
    by (simp add: poll_media.simps poll_step_def is_ghost_def MAX_RETRIES_def RETRY_DELAY_def
        sn_stuck_def sn_ok_def post_def truthy_def step_def fetches_def)
  then obtain s' where "poll_media (safe_submit_video 0 (\<lambda>k. sn_stuck) ''clip'' ''clip.mp4'')
        (\<lambda>k. sn_stuck) post 0
              \<lparr>clock = 7, trace = [Validate ''clip.mp4'', ReadFile ''clip.mp4'', Thumbnail,
                 DirectSubmit ''clip'', SubmitVideo ''clip'', Sleep 5, ListNew]\<rparr>
            = (Inr PyNone, s')" and "fetches (trace s') = 15"
    by blast
  then show ?thesis
    using prepare_stuck by (simp add: submit_with_def)
qed

text \<open>
  C2, amended. Validate-heavy path: when \<open>safe_submit_video\<close> has reached its
  polling loop with a post, every fetch that answers shows a \<open>reddit_video\<close> media
  payload, and no HEAD request on the video URL answers 200, then the function
  returns \<open>None\<close>, not the post, without raising, after 15 fetches with 14 sleeps of
  10 seconds between them. Simpler path: when no fetch that answers shows a
  \<open>reddit_video\<close> payload for the post, the wait of \<open>upload_to_reddit\<close> returns the
  post's permalink URL, without raising, after 6 rounds of one fetch and one sleep
  of 10 seconds.
\<close>

theorem poll_timeout_outcomes:
  "(safe_submit_prepare w ttl video_path s = (Inr (Inr submission), s1)
     \<and> (\<forall>k i. case reddit_submission (w k) i of Inl e \<Rightarrow> True | Inr fresh \<Rightarrow> \<not> is_ghost fresh)
     \<and> (\<forall>k u. requests_head (w k) u \<noteq> Inr 200)
     \<longrightarrow> (\<exists>s2 tr. safe_submit_video fuel w ttl video_path s = (Inr PyNone, s2)
            \<and> trace s2 = trace s1 @ tr \<and> fetches tr = 15 \<and> sleeps tr = replicate 14 10))
   \<and> ((\<forall>k. case reddit_submission (w' k) (sub_id submission') of
               Inl e \<Rightarrow> True
             | Inr fresh \<Rightarrow> \<not> has_reddit_video fresh \<and> sub_id fresh = sub_id submission'
                 \<and> permalink fresh = permalink submission')
     \<longrightarrow> fst (upload_wait w' submission' 0 s') = ''https://reddit.com'' @ permalink submission'
         \<and> trace (snd (upload_wait w' submission' 0 s'))
             = trace s' @ concat (replicate 6 [Fetch (sub_id submission'), Sleep 10]))"
proof -
  have a: "\<exists>s2 tr. safe_submit_video fuel w ttl video_path s = (Inr PyNone, s2)
            \<and> trace s2 = trace s1 @ tr \<and> fetches tr = 15 \<and> sleeps tr = replicate 14 10"
    if "safe_submit_prepare w ttl video_path s = (Inr (Inr submission), s1)"
      and "\<forall>k i. case reddit_submission (w k) i of Inl e \<Rightarrow> True | Inr fresh \<Rightarrow> \<not> is_ghost fresh"
      and "\<forall>k u. requests_head (w k) u \<noteq> Inr 200"
    using safe_submit_video_timeout [OF that] .
  have b: "fst (upload_wait w' submission' 0 s') = ''https://reddit.com'' @ permalink submission'
         \<and> trace (snd (upload_wait w' submission' 0 s'))
             = trace s' @ concat (replicate 6 [Fetch (sub_id submission'), Sleep 10])"
    if "\<forall>k. case reddit_submission (w' k) (sub_id submission') of
               Inl e \<Rightarrow> True
             | Inr fresh \<Rightarrow> \<not> has_reddit_video fresh \<and> sub_id fresh = sub_id submission'
                 \<and> permalink fresh = permalink submission'"
    using upload_wait_timeout [OF that, of 0 submission' s']
    by (simp add: max_retries_def retry_delay_def)
  show ?thesis using a b by blast
qed

theorem poll_timeout_outcomes_witness:
  "(\<exists>s2 tr. safe_submit_video (Suc 0) (\<lambda>k. sn_pending) ''clip'' ''clip.mp4'' s0 = (Inr PyNone, s2)
       \<and> trace s2 = [Validate ''clip.mp4'', ReadFile ''clip.mp4'', Thumbnail,
                      DirectSubmit ''clip'', SubmitVideo ''clip'', Sleep 5, ListNew] @ tr
       \<and> fetches tr = 15 \<and> sleeps tr = replicate 14 10)
   \<and> fst (upload_wait (\<lambda>k. sn_ghost) post 0 s0) = ''https://reddit.com/r/inkwisp/comments/abc/clip/''
   \<and> trace (snd (upload_wait (\<lambda>k. sn_ghost) post 0 s0))
        = concat (replicate 6 [Fetch ''abc'', Sleep 10])"
proof -
  have a: "\<forall>k i. case reddit_submission sn_pending i of Inl e \<Rightarrow> True | Inr fresh \<Rightarrow> \<not> is_ghost fresh"
    by (simp add: sn_pending_def sn_ok_def is_ghost_def post_def)
  have b: "\<forall>k u. requests_head sn_pending u \<noteq> Inr 200"
    by (simp add: sn_pending_def)
  have c: "\<forall>k. case reddit_submission sn_ghost (sub_id post) of
               Inl e \<Rightarrow> True
             | Inr fresh \<Rightarrow> \<not> has_reddit_video fresh \<and> sub_id fresh = sub_id post
                 \<and> permalink fresh = permalink post"
    by (simp add: sn_ghost_def ghost_post_def has_reddit_video_def)
  have d: "permalink post = ''/r/inkwisp/comments/abc/clip/''" "sub_id post = ''abc''"
    by (simp_all add: post_def)
  have e: "trace s0 = []" by (simp add: s0_def)
  show ?thesis
    using poll_timeout_outcomes [where w = "\<lambda>k. sn_pending" and ttl = "''clip''"
        and video_path = "''clip.mp4''" and s = s0 and submission = post
        and ?s1.0 = "\<lparr>clock = 7, trace = [Validate ''clip.mp4'', ReadFile ''clip.mp4'', Thumbnail,
         DirectSubmit ''clip'', SubmitVideo ''clip'', Sleep 5, ListNew]\<rparr>" and fuel = "Suc 0"
        and w' = "\<lambda>k. sn_ghost" and submission' = post and s' = s0]
      prepare_pending a b c d e
    by simp
qed

text \<open>
  In a world where every fetch shows a ghost and every delete succeeds, the restarts
  go on until the recursion limit; there the recursive call raises inside the loop's
  \<open>try\<close>, the loop goes through its 15 iterations and re-raises, and the outer
  handler returns \<open>None\<close>, which every enclosing call returns in turn.
\<close>

lemma ghost_forever_at_limit:
  "fst (safe_submit_video 0 (\<lambda>k. sn_ghost) ''clip'' ''clip.mp4'' s0) = Inr PyNone"
  by (simp add: submit_with_def prepare_defs sn_ghost_def ghost_post_def
      poll_media.simps poll_step_def is_ghost_def MAX_RETRIES_def RETRY_DELAY_def)

lemma ghost_forever_one_restart:
  "fst (safe_submit_video 1 (\<lambda>k. sn_ghost) ''clip'' ''clip.mp4'' s0) = Inr PyNone"
  by (simp add: submit_with_def prepare_defs sn_ghost_def ghost_post_def
      poll_media.simps poll_step_def is_ghost_def MAX_RETRIES_def RETRY_DELAY_def)

text \<open>
  C10. \<open>safe_submit_video\<close> is total with respect to errors: for every recursion
  budget, every world (whatever fails in validation, thumbnail generation, direct
  submission, fallback submission, post recovery or polling), every title, path and
  state, it returns a value, which is a post URL, a submission or \<open>None\<close>, and no
  exception reaches its caller.
\<close>

theorem safe_submit_video_total:
  "\<exists>v s'. safe_submit_video fuel w ttl p s = (Inr v, s')
          \<and> ((\<exists>u. v = PostUrl u) \<or> (\<exists>h. v = Handle h) \<or> v = PyNone)"
proof -
  obtain v s' where r: "safe_submit_video fuel w ttl p s = (Inr v, s')"
    using safe_submit_video_no_raise by blast
  have "(\<exists>u. v = PostUrl u) \<or> (\<exists>h. v = Handle h) \<or> v = PyNone"
    by (cases v) auto
  then show ?thesis using r by blast
qed

theorem safe_submit_video_total_witness:
  "(\<exists>v s'. safe_submit_video 1 (\<lambda>k. sn_ghost) ''clip'' ''clip.mp4'' s0 = (Inr v, s')
           \<and> ((\<exists>u. v = PostUrl u) \<or> (\<exists>h. v = Handle h) \<or> v = PyNone))
   \<and> fst (safe_submit_video 1 (\<lambda>k. sn_ghost) ''clip'' ''clip.mp4'' s0) = Inr PyNone"
  using safe_submit_video_total [where fuel = 1 and w = "\<lambda>k. sn_ghost" and ttl = "''clip''"
      and p = "''clip.mp4''" and s = s0] ghost_forever_one_restart
  by blast


end
